theory Spec2Isabelle
  imports Complex_Main
begin

section \<open>Client bootstrap: \<^verbatim>\<open>src/lib/supabase.ts\<close>\<close>

text \<open>
  The values the module reads are JavaScript strings or \<^verbatim>\<open>undefined\<close>:
  \<open>None\<close> is \<^verbatim>\<open>undefined\<close>, \<open>Some s\<close> the string \<open>s\<close>.
\<close>

type_synonym js_value = "string option"

text \<open>JavaScript truthiness of such a value: \<^verbatim>\<open>undefined\<close> and \<^verbatim>\<open>''\<close> are falsy.\<close>

definition truthy :: "js_value \<Rightarrow> bool" where
  "truthy v = (case v of None \<Rightarrow> False | Some s \<Rightarrow> s \<noteq> [])"

text \<open>The operator \<^verbatim>\<open>a || b\<close>: \<open>a\<close> when it is truthy, \<open>b\<close> otherwise.\<close>

definition js_or :: "js_value \<Rightarrow> js_value \<Rightarrow> js_value" where
  "js_or a b = (if truthy a then a else b)"

text \<open>\<^verbatim>\<open>import.meta.env\<close>, restricted to the two variables the module reads.\<close>

record env =
  VITE_SUPABASE_URL :: js_value
  VITE_SUPABASE_ANON_KEY :: js_value

text \<open>
  The constants imported from \<^verbatim>\<open>./supabase-config\<close>. That file is not part of the
  sources at hand, so the pair is a parameter of the model.
\<close>

record supabase_config =
  SUPABASE_URL :: js_value
  SUPABASE_ANON_KEY :: js_value

text \<open>The \<^verbatim>\<open>auth\<close> options object passed to \<^verbatim>\<open>createClient\<close>.\<close>

record auth_options =
  autoRefreshToken :: bool
  persistSession :: bool
  detectSessionInUrl :: bool

text \<open>
  One call of \<^verbatim>\<open>console.error(label, {VITE_SUPABASE_URL: .., VITE_SUPABASE_ANON_KEY: ..})\<close>:
  the label and the two properties of the logged object.
\<close>

record log_entry =
  log_label :: string
  log_VITE_SUPABASE_URL :: js_value
  log_VITE_SUPABASE_ANON_KEY :: string

datatype js_error = Error string

definition supabaseUrl :: "env \<Rightarrow> supabase_config \<Rightarrow> js_value" where
  "supabaseUrl e c = js_or (VITE_SUPABASE_URL e) (SUPABASE_URL c)"

definition supabaseAnonKey :: "env \<Rightarrow> supabase_config \<Rightarrow> js_value" where
  "supabaseAnonKey e c = js_or (VITE_SUPABASE_ANON_KEY e) (SUPABASE_ANON_KEY c)"

text \<open>
  Evaluating the module. \<open>createClient\<close> is the constructor of the client library,
  which is outside the repository and a parameter here: it receives the two values and
  the options, and either throws an error of its own or returns the handle. The module
  has no \<^verbatim>\<open>try\<close> around the call, so an error of the constructor is an error of the
  module. The result is the console output together with either the thrown error or
  the exported \<^verbatim>\<open>supabase\<close> handle; \<open>'client\<close> is the type of the client objects
  the constructor makes.
\<close>

definition supabase ::
  "(js_value \<Rightarrow> js_value \<Rightarrow> auth_options \<Rightarrow> js_error + 'client) \<Rightarrow> env \<Rightarrow> supabase_config
     \<Rightarrow> log_entry list \<times> (js_error + 'client)" where
  "supabase createClient e c =
     (if \<not> truthy (supabaseUrl e c) \<or> \<not> truthy (supabaseAnonKey e c) then
        ([\<lparr>log_label = ''Environment variables:'',
           log_VITE_SUPABASE_URL = supabaseUrl e c,
           log_VITE_SUPABASE_ANON_KEY =
             (if truthy (supabaseAnonKey e c) then ''exists'' else ''missing'')\<rparr>],
         Inl (Error ''Missing Supabase environment variables. Please restart the dev server.''))
      else
        ([],
         createClient (supabaseUrl e c) (supabaseAnonKey e c)
           \<lparr>autoRefreshToken = False, persistSession = False,
            detectSessionInUrl = False\<rparr>))"

text \<open>
  A constructor for running the module on concrete values. Like the constructor of the
  client library it validates what it is given: it throws unless the URL begins with
  \<^verbatim>\<open>http://\<close> or \<^verbatim>\<open>https://\<close> and a key is there. The handle it returns holds
  its arguments.
\<close>

definition createClient_validating ::
  "js_value \<Rightarrow> js_value \<Rightarrow> auth_options \<Rightarrow> js_error + (string \<times> string \<times> auth_options)" where
  "createClient_validating url key options =
     (case url of
        None \<Rightarrow> Inl (Error ''supabaseUrl is required.'')
      | Some u \<Rightarrow>
          (if take 7 u \<noteq> ''http://'' \<and> take 8 u \<noteq> ''https://''
             then Inl (Error ''Invalid supabaseUrl: Must be a valid HTTP or HTTPS URL.'')
           else (case key of
                   None \<Rightarrow> Inl (Error ''supabaseKey is required.'')
                 | Some k \<Rightarrow> Inr (u, k, options))))"

section \<open>Row-level security: the \<^verbatim>\<open>CREATE POLICY\<close> statements of the migration\<close>

datatype table_name = catalog_users_table | catalog_parts_table | cart_table
  | verification_codes_table

datatype command = SELECT | INSERT | UPDATE | DELETE

text \<open>The \<^verbatim>\<open>FOR\<close> clause of a policy: one command, or \<^verbatim>\<open>ALL\<close>.\<close>

datatype policy_for = FOR command | FOR_ALL

text \<open>
  A policy: its name, table, \<^verbatim>\<open>FOR\<close> clause, the roles of its \<^verbatim>\<open>TO\<close> clause, and
  the \<^verbatim>\<open>USING\<close> and \<^verbatim>\<open>WITH CHECK\<close> expressions where it has them. Every expression
  of the migration is the constant \<^verbatim>\<open>true\<close>, so an expression is a truth value.
\<close>

record policy =
  policy_name :: string
  policy_on :: table_name
  policy_for :: policy_for
  policy_to :: "string list"
  policy_using :: "bool option"
  policy_with_check :: "bool option"

definition policies :: "policy list" where
  "policies =
    [\<lparr>policy_name = ''Allow anonymous registration'', policy_on = catalog_users_table,
      policy_for = FOR INSERT, policy_to = [''anon'', ''authenticated''],
      policy_using = None, policy_with_check = Some True\<rparr>,
     \<lparr>policy_name = ''Users can read own data'', policy_on = catalog_users_table,
      policy_for = FOR SELECT, policy_to = [''anon'', ''authenticated''],
      policy_using = Some True, policy_with_check = None\<rparr>,
     \<lparr>policy_name = ''Users can update own data'', policy_on = catalog_users_table,
      policy_for = FOR UPDATE, policy_to = [''anon'', ''authenticated''],
      policy_using = Some True, policy_with_check = Some True\<rparr>,
     \<lparr>policy_name = ''Anyone can read parts'', policy_on = catalog_parts_table,
      policy_for = FOR SELECT, policy_to = [''anon'', ''authenticated''],
      policy_using = Some True, policy_with_check = None\<rparr>,
     \<lparr>policy_name = ''Anyone can insert parts'', policy_on = catalog_parts_table,
      policy_for = FOR INSERT, policy_to = [''anon'', ''authenticated''],
      policy_using = None, policy_with_check = Some True\<rparr>,
     \<lparr>policy_name = ''Anyone can update parts'', policy_on = catalog_parts_table,
      policy_for = FOR UPDATE, policy_to = [''anon'', ''authenticated''],
      policy_using = Some True, policy_with_check = Some True\<rparr>,
     \<lparr>policy_name = ''Anyone can delete parts'', policy_on = catalog_parts_table,
      policy_for = FOR DELETE, policy_to = [''anon'', ''authenticated''],
      policy_using = Some True, policy_with_check = None\<rparr>,
     \<lparr>policy_name = ''Users can manage own cart'', policy_on = cart_table,
      policy_for = FOR_ALL, policy_to = [''anon'', ''authenticated''],
      policy_using = Some True, policy_with_check = Some True\<rparr>,
     \<lparr>policy_name = ''Anyone can create codes'', policy_on = verification_codes_table,
      policy_for = FOR INSERT, policy_to = [''anon'', ''authenticated''],
      policy_using = None, policy_with_check = Some True\<rparr>,
     \<lparr>policy_name = ''Anyone can read codes'', policy_on = verification_codes_table,
      policy_for = FOR SELECT, policy_to = [''anon'', ''authenticated''],
      policy_using = Some True, policy_with_check = None\<rparr>,
     \<lparr>policy_name = ''Anyone can update codes'', policy_on = verification_codes_table,
      policy_for = FOR UPDATE, policy_to = [''anon'', ''authenticated''],
      policy_using = Some True, policy_with_check = Some True\<rparr>]"

text \<open>
  The tables on which the migration runs \<^verbatim>\<open>ENABLE ROW LEVEL SECURITY\<close>.
\<close>

definition row_level_security :: "table_name list" where
  "row_level_security =
     [catalog_users_table, catalog_parts_table, cart_table, verification_codes_table]"

text \<open>
  A policy applies to a command of a role on a table when it is on that table, its
  \<^verbatim>\<open>FOR\<close> clause covers the command and its \<^verbatim>\<open>TO\<close> clause names the role.
\<close>

definition applies :: "policy \<Rightarrow> string \<Rightarrow> command \<Rightarrow> table_name \<Rightarrow> bool" where
  "applies p role cmd t =
     (policy_on p = t \<and> (policy_for p = FOR cmd \<or> policy_for p = FOR_ALL)
      \<and> role \<in> set (policy_to p))"

text \<open>
  The expressions of a policy. A missing \<^verbatim>\<open>USING\<close> is \<^verbatim>\<open>true\<close>; a policy
  without \<^verbatim>\<open>WITH CHECK\<close> checks new rows with its \<^verbatim>\<open>USING\<close> expression.
\<close>

definition using_expr :: "policy \<Rightarrow> bool" where
  "using_expr p = (case policy_using p of Some b \<Rightarrow> b | None \<Rightarrow> True)"

definition with_check_expr :: "policy \<Rightarrow> bool" where
  "with_check_expr p = (case policy_with_check p of Some b \<Rightarrow> b | None \<Rightarrow> using_expr p)"

text \<open>
  With row-level security enabled on a table, a command of a role is denied unless a
  policy permits it; the applicable policies are combined with \<^verbatim>\<open>OR\<close>.
  \<^verbatim>\<open>SELECT\<close> and \<^verbatim>\<open>DELETE\<close> need a \<^verbatim>\<open>USING\<close> expression that holds of the
  row, \<^verbatim>\<open>INSERT\<close> a \<^verbatim>\<open>WITH CHECK\<close> expression that holds of the new row, and
  \<^verbatim>\<open>UPDATE\<close> both.
\<close>

definition permitted :: "string \<Rightarrow> command \<Rightarrow> table_name \<Rightarrow> bool" where
  "permitted role cmd t =
     (if t \<in> set row_level_security then
        (case cmd of
           SELECT \<Rightarrow> (\<exists>p \<in> set policies. applies p role cmd t \<and> using_expr p)
         | INSERT \<Rightarrow> (\<exists>p \<in> set policies. applies p role cmd t \<and> with_check_expr p)
         | UPDATE \<Rightarrow> (\<exists>p \<in> set policies. applies p role cmd t \<and> using_expr p)
                     \<and> (\<exists>p \<in> set policies. applies p role cmd t \<and> with_check_expr p)
         | DELETE \<Rightarrow> (\<exists>p \<in> set policies. applies p role cmd t \<and> using_expr p))
      else True)"

section \<open>The schema: the \<^verbatim>\<open>CREATE TABLE\<close> statements of the migration\<close>

text \<open>
  Column types: a \<^verbatim>\<open>UUID\<close> is a natural number, \<^verbatim>\<open>TEXT\<close> a string,
  \<^verbatim>\<open>TIMESTAMPTZ\<close> an integer of microseconds, \<^verbatim>\<open>INTEGER\<close> an integer within
  the 32-bit range, \<^verbatim>\<open>NUMERIC\<close> a rational (its special values are not modelled).
  Every column of a row is an option, \<open>None\<close> being \<^verbatim>\<open>NULL\<close>; \<^verbatim>\<open>NOT NULL\<close> is
  one of the constraints checked when a row is written.
\<close>

type_synonym uuid = nat

type_synonym timestamptz = int

record catalog_users_row =
  users_id :: "uuid option"
  users_email :: "string option"
  users_password_hash :: "string option"
  users_name :: "string option"
  users_company_name :: "string option"
  users_address :: "string option"
  users_phone_number :: "string option"
  users_status :: "string option"
  users_is_admin :: "bool option"
  users_created_at :: "timestamptz option"
  users_updated_at :: "timestamptz option"

record catalog_parts_row =
  parts_id :: "uuid option"
  parts_part_number :: "string option"
  parts_name_en :: "string option"
  parts_name_ru :: "string option"
  parts_category :: "string option"
  parts_price :: "rat option"
  parts_qty :: "int option"
  parts_image_url :: "string option"
  parts_created_at :: "timestamptz option"
  parts_updated_at :: "timestamptz option"

record cart_row =
  cart_id :: "uuid option"
  cart_user_id :: "uuid option"
  cart_part_id :: "uuid option"
  cart_quantity :: "int option"
  cart_created_at :: "timestamptz option"

record verification_codes_row =
  codes_id :: "uuid option"
  codes_email :: "string option"
  codes_code :: "string option"
  codes_expires_at :: "timestamptz option"
  codes_used :: "bool option"
  codes_created_at :: "timestamptz option"

text \<open>A database state: the rows of the four tables.\<close>

record db =
  catalog_users :: "catalog_users_row list"
  catalog_parts :: "catalog_parts_row list"
  cart :: "cart_row list"
  verification_codes :: "verification_codes_row list"

text \<open>The state after the migration: \<^verbatim>\<open>CREATE TABLE\<close> makes the four tables, empty.\<close>

definition empty_db :: db where
  "empty_db = \<lparr>catalog_users = [], catalog_parts = [], cart = [], verification_codes = []\<rparr>"

datatype sql_error =
    not_null_violation string
  | check_violation string
  | unique_violation string
  | foreign_key_violation string
  | numeric_value_out_of_range string

subsection \<open>Column values of an \<^verbatim>\<open>INSERT\<close>\<close>

text \<open>
  What an \<^verbatim>\<open>INSERT\<close> says about one column: nothing (the column is omitted and gets
  its \<^verbatim>\<open>DEFAULT\<close>), \<^verbatim>\<open>NULL\<close>, or a value.
\<close>

datatype 'a input = Omitted | Null | Value 'a

text \<open>The value stored, given the column's default (\<open>None\<close> for a column without one).\<close>

fun resolve :: "'a option \<Rightarrow> 'a input \<Rightarrow> 'a option" where
  "resolve d Omitted = d"
| "resolve d Null = None"
| "resolve d (Value v) = Some v"

record catalog_users_insert =
  new_users_id :: "uuid input"
  new_users_email :: "string input"
  new_users_password_hash :: "string input"
  new_users_name :: "string input"
  new_users_company_name :: "string input"
  new_users_address :: "string input"
  new_users_phone_number :: "string input"
  new_users_status :: "string input"
  new_users_is_admin :: "bool input"
  new_users_created_at :: "timestamptz input"
  new_users_updated_at :: "timestamptz input"

record catalog_parts_insert =
  new_parts_id :: "uuid input"
  new_parts_part_number :: "string input"
  new_parts_name_en :: "string input"
  new_parts_name_ru :: "string input"
  new_parts_category :: "string input"
  new_parts_price :: "rat input"
  new_parts_qty :: "int input"
  new_parts_image_url :: "string input"
  new_parts_created_at :: "timestamptz input"
  new_parts_updated_at :: "timestamptz input"

record cart_insert =
  new_cart_id :: "uuid input"
  new_cart_user_id :: "uuid input"
  new_cart_part_id :: "uuid input"
  new_cart_quantity :: "int input"
  new_cart_created_at :: "timestamptz input"

record verification_codes_insert =
  new_codes_id :: "uuid input"
  new_codes_email :: "string input"
  new_codes_code :: "string input"
  new_codes_expires_at :: "timestamptz input"
  new_codes_used :: "bool input"
  new_codes_created_at :: "timestamptz input"

text \<open>
  The row an \<^verbatim>\<open>INSERT\<close> builds, column by column with the defaults of the
  \<^verbatim>\<open>CREATE TABLE\<close> statement. The results of \<^verbatim>\<open>gen_random_uuid()\<close> and
  \<^verbatim>\<open>now()\<close> are the parameters \<open>gen\<close> and \<open>now\<close>.
\<close>

definition catalog_users_new ::
  "uuid \<Rightarrow> timestamptz \<Rightarrow> catalog_users_insert \<Rightarrow> catalog_users_row" where
  "catalog_users_new gen now v =
    \<lparr>users_id = resolve (Some gen) (new_users_id v),
     users_email = resolve None (new_users_email v),
     users_password_hash = resolve None (new_users_password_hash v),
     users_name = resolve None (new_users_name v),
     users_company_name = resolve (Some '''') (new_users_company_name v),
     users_address = resolve (Some '''') (new_users_address v),
     users_phone_number = resolve (Some '''') (new_users_phone_number v),
     users_status = resolve (Some ''pending'') (new_users_status v),
     users_is_admin = resolve (Some False) (new_users_is_admin v),
     users_created_at = resolve (Some now) (new_users_created_at v),
     users_updated_at = resolve (Some now) (new_users_updated_at v)\<rparr>"

definition catalog_parts_new ::
  "uuid \<Rightarrow> timestamptz \<Rightarrow> catalog_parts_insert \<Rightarrow> catalog_parts_row" where
  "catalog_parts_new gen now v =
    \<lparr>parts_id = resolve (Some gen) (new_parts_id v),
     parts_part_number = resolve None (new_parts_part_number v),
     parts_name_en = resolve None (new_parts_name_en v),
     parts_name_ru = resolve None (new_parts_name_ru v),
     parts_category = resolve None (new_parts_category v),
     parts_price = resolve None (new_parts_price v),
     parts_qty = resolve (Some 0) (new_parts_qty v),
     parts_image_url = resolve None (new_parts_image_url v),
     parts_created_at = resolve (Some now) (new_parts_created_at v),
     parts_updated_at = resolve (Some now) (new_parts_updated_at v)\<rparr>"

definition cart_new :: "uuid \<Rightarrow> timestamptz \<Rightarrow> cart_insert \<Rightarrow> cart_row" where
  "cart_new gen now v =
    \<lparr>cart_id = resolve (Some gen) (new_cart_id v),
     cart_user_id = resolve None (new_cart_user_id v),
     cart_part_id = resolve None (new_cart_part_id v),
     cart_quantity = resolve (Some 1) (new_cart_quantity v),
     cart_created_at = resolve (Some now) (new_cart_created_at v)\<rparr>"

definition verification_codes_new ::
  "uuid \<Rightarrow> timestamptz \<Rightarrow> verification_codes_insert \<Rightarrow> verification_codes_row" where
  "verification_codes_new gen now v =
    \<lparr>codes_id = resolve (Some gen) (new_codes_id v),
     codes_email = resolve None (new_codes_email v),
     codes_code = resolve None (new_codes_code v),
     codes_expires_at = resolve None (new_codes_expires_at v),
     codes_used = resolve (Some False) (new_codes_used v),
     codes_created_at = resolve (Some now) (new_codes_created_at v)\<rparr>"

subsection \<open>Constraints\<close>

text \<open>An \<^verbatim>\<open>INTEGER\<close> column holds \<^verbatim>\<open>NULL\<close> or a value of the 32-bit signed range.\<close>

definition integer_in_range :: "int option \<Rightarrow> bool" where
  "integer_in_range v =
     (case v of None \<Rightarrow> True | Some n \<Rightarrow> - 2147483648 \<le> n \<and> n \<le> 2147483647)"

text \<open>
  A \<^verbatim>\<open>CHECK\<close> constraint is violated only when its expression is false: on
  \<^verbatim>\<open>NULL\<close> the expression is unknown and the constraint passes.
\<close>

definition catalog_users_status_check :: "string option \<Rightarrow> bool" where
  "catalog_users_status_check status =
     (case status of None \<Rightarrow> True
      | Some s \<Rightarrow> s \<in> set [''pending'', ''approved'', ''rejected''])"

definition cart_quantity_check :: "int option \<Rightarrow> bool" where
  "cart_quantity_check quantity = (case quantity of None \<Rightarrow> True | Some n \<Rightarrow> n > 0)"

text \<open>
  A unique index over a key: a row conflicts with the others when its key has no
  \<^verbatim>\<open>NULL\<close> column (the key function returns \<open>Some\<close>) and another row has the same
  key. Keys with a \<^verbatim>\<open>NULL\<close> column never conflict.
\<close>

definition unique_conflict :: "('r \<Rightarrow> 'k option) \<Rightarrow> 'r \<Rightarrow> 'r list \<Rightarrow> bool" where
  "unique_conflict key r others =
     (case key r of None \<Rightarrow> False | Some k \<Rightarrow> \<exists>x \<in> set others. key x = Some k)"

text \<open>The key of \<^verbatim>\<open>UNIQUE(user_id, part_id)\<close>.\<close>

definition cart_user_id_part_id_key :: "cart_row \<Rightarrow> (uuid \<times> uuid) option" where
  "cart_user_id_part_id_key r =
     (case cart_user_id r of None \<Rightarrow> None
      | Some u \<Rightarrow> (case cart_part_id r of None \<Rightarrow> None | Some p \<Rightarrow> Some (u, p)))"

text \<open>
  The checks on a row that is written next to the rows \<open>others\<close> of its table, in the
  order the database makes them: the range of the integer columns, \<^verbatim>\<open>NOT NULL\<close>
  (a \<^verbatim>\<open>PRIMARY KEY\<close> column is \<^verbatim>\<open>NOT NULL\<close>), \<^verbatim>\<open>CHECK\<close>, then the unique
  indexes. The result is the first violation, or \<open>None\<close>.
\<close>

definition catalog_users_constraints ::
  "catalog_users_row \<Rightarrow> catalog_users_row list \<Rightarrow> sql_error option" where
  "catalog_users_constraints r others =
     (if users_id r = None then Some (not_null_violation ''id'')
      else if users_email r = None then Some (not_null_violation ''email'')
      else if users_password_hash r = None then Some (not_null_violation ''password_hash'')
      else if users_name r = None then Some (not_null_violation ''name'')
      else if users_company_name r = None then Some (not_null_violation ''company_name'')
      else if users_address r = None then Some (not_null_violation ''address'')
      else if users_phone_number r = None then Some (not_null_violation ''phone_number'')
      else if users_status r = None then Some (not_null_violation ''status'')
      else if \<not> catalog_users_status_check (users_status r)
        then Some (check_violation ''catalog_users_status_check'')
      else if unique_conflict users_id r others
        then Some (unique_violation ''catalog_users_pkey'')
      else if unique_conflict users_email r others
        then Some (unique_violation ''catalog_users_email_key'')
      else None)"

definition catalog_parts_constraints ::
  "catalog_parts_row \<Rightarrow> catalog_parts_row list \<Rightarrow> sql_error option" where
  "catalog_parts_constraints r others =
     (if \<not> integer_in_range (parts_qty r) then Some (numeric_value_out_of_range ''qty'')
      else if parts_id r = None then Some (not_null_violation ''id'')
      else if parts_part_number r = None then Some (not_null_violation ''part_number'')
      else if parts_name_en r = None then Some (not_null_violation ''name_en'')
      else if parts_name_ru r = None then Some (not_null_violation ''name_ru'')
      else if parts_category r = None then Some (not_null_violation ''category'')
      else if parts_price r = None then Some (not_null_violation ''price'')
      else if unique_conflict parts_id r others
        then Some (unique_violation ''catalog_parts_pkey'')
      else None)"

definition cart_constraints :: "cart_row \<Rightarrow> cart_row list \<Rightarrow> sql_error option" where
  "cart_constraints r others =
     (if \<not> integer_in_range (cart_quantity r)
        then Some (numeric_value_out_of_range ''quantity'')
      else if cart_id r = None then Some (not_null_violation ''id'')
      else if \<not> cart_quantity_check (cart_quantity r)
        then Some (check_violation ''cart_quantity_check'')
      else if unique_conflict cart_id r others then Some (unique_violation ''cart_pkey'')
      else if unique_conflict cart_user_id_part_id_key r others
        then Some (unique_violation ''cart_user_id_part_id_key'')
      else None)"

definition verification_codes_constraints ::
  "verification_codes_row \<Rightarrow> verification_codes_row list \<Rightarrow> sql_error option" where
  "verification_codes_constraints r others =
     (if codes_id r = None then Some (not_null_violation ''id'')
      else if codes_email r = None then Some (not_null_violation ''email'')
      else if codes_code r = None then Some (not_null_violation ''code'')
      else if codes_expires_at r = None then Some (not_null_violation ''expires_at'')
      else if unique_conflict codes_id r others
        then Some (unique_violation ''verification_codes_pkey'')
      else None)"

text \<open>
  \<^verbatim>\<open>REFERENCES\<close>: a reference that is not \<^verbatim>\<open>NULL\<close> must be the key of a row of
  the referenced table.
\<close>

definition references :: "uuid option \<Rightarrow> uuid option list \<Rightarrow> bool" where
  "references fk keys = (case fk of None \<Rightarrow> True | Some k \<Rightarrow> Some k \<in> set keys)"

definition cart_foreign_keys :: "db \<Rightarrow> cart_row \<Rightarrow> sql_error option" where
  "cart_foreign_keys d r =
     (if \<not> references (cart_user_id r) (map users_id (catalog_users d))
        then Some (foreign_key_violation ''cart_user_id_fkey'')
      else if \<not> references (cart_part_id r) (map parts_id (catalog_parts d))
        then Some (foreign_key_violation ''cart_part_id_fkey'')
      else None)"

text \<open>
  What a foreign key does to the referencing rows when referenced rows are deleted.
  Both foreign keys of \<^verbatim>\<open>cart\<close> say \<^verbatim>\<open>ON DELETE CASCADE\<close>; neither has an
  \<^verbatim>\<open>ON UPDATE\<close> clause, which leaves \<^verbatim>\<open>NO ACTION\<close> for a change of a referenced key.
\<close>

datatype referential_action = NO_ACTION | CASCADE

definition cart_user_id_fkey_on_delete :: referential_action where
  "cart_user_id_fkey_on_delete = CASCADE"

definition cart_part_id_fkey_on_delete :: referential_action where
  "cart_part_id_fkey_on_delete = CASCADE"

definition cart_user_id_fkey_on_update :: referential_action where
  "cart_user_id_fkey_on_update = NO_ACTION"

definition cart_part_id_fkey_on_update :: referential_action where
  "cart_part_id_fkey_on_update = NO_ACTION"

text \<open>A referencing row points at one of the keys \<open>gone\<close>.\<close>

definition points_at :: "uuid option \<Rightarrow> uuid option list \<Rightarrow> bool" where
  "points_at fk gone = (case fk of None \<Rightarrow> False | Some k \<Rightarrow> Some k \<in> set gone)"

text \<open>
  The referencing rows after the keys \<open>gone\<close> have left the referenced table:
  \<^verbatim>\<open>CASCADE\<close> removes the rows that point at them, \<^verbatim>\<open>NO ACTION\<close> fails when there
  is such a row.
\<close>

definition referential ::
  "referential_action \<Rightarrow> string \<Rightarrow> ('r \<Rightarrow> uuid option) \<Rightarrow> uuid option list \<Rightarrow> 'r list
     \<Rightarrow> sql_error + 'r list" where
  "referential action name fk gone rows =
     (case action of
        CASCADE \<Rightarrow> Inr (filter (\<lambda>r. \<not> points_at (fk r) gone) rows)
      | NO_ACTION \<Rightarrow>
          (if \<exists>r \<in> set rows. points_at (fk r) gone then Inl (foreign_key_violation name)
           else Inr rows))"

subsection \<open>Statements\<close>

text \<open>
  A statement either fails with an error, leaving the database as it was, or returns
  the new state. An \<^verbatim>\<open>INSERT\<close> adds one row.
\<close>

definition insert_catalog_users ::
  "db \<Rightarrow> uuid \<Rightarrow> timestamptz \<Rightarrow> catalog_users_insert \<Rightarrow> sql_error + db" where
  "insert_catalog_users d gen now v =
     (case catalog_users_constraints (catalog_users_new gen now v) (catalog_users d) of
        Some e \<Rightarrow> Inl e
      | None \<Rightarrow> Inr (d\<lparr>catalog_users := catalog_users d @ [catalog_users_new gen now v]\<rparr>))"

definition insert_catalog_parts ::
  "db \<Rightarrow> uuid \<Rightarrow> timestamptz \<Rightarrow> catalog_parts_insert \<Rightarrow> sql_error + db" where
  "insert_catalog_parts d gen now v =
     (case catalog_parts_constraints (catalog_parts_new gen now v) (catalog_parts d) of
        Some e \<Rightarrow> Inl e
      | None \<Rightarrow> Inr (d\<lparr>catalog_parts := catalog_parts d @ [catalog_parts_new gen now v]\<rparr>))"

definition insert_cart :: "db \<Rightarrow> uuid \<Rightarrow> timestamptz \<Rightarrow> cart_insert \<Rightarrow> sql_error + db" where
  "insert_cart d gen now v =
     (case cart_constraints (cart_new gen now v) (cart d) of
        Some e \<Rightarrow> Inl e
      | None \<Rightarrow>
          (case cart_foreign_keys d (cart_new gen now v) of
             Some e \<Rightarrow> Inl e
           | None \<Rightarrow> Inr (d\<lparr>cart := cart d @ [cart_new gen now v]\<rparr>)))"

definition insert_verification_codes ::
  "db \<Rightarrow> uuid \<Rightarrow> timestamptz \<Rightarrow> verification_codes_insert \<Rightarrow> sql_error + db" where
  "insert_verification_codes d gen now v =
     (case verification_codes_constraints (verification_codes_new gen now v)
             (verification_codes d) of
        Some e \<Rightarrow> Inl e
      | None \<Rightarrow>
          Inr (d\<lparr>verification_codes :=
                   verification_codes d @ [verification_codes_new gen now v]\<rparr>))"

text \<open>
  \<^verbatim>\<open>UPDATE t SET .. WHERE ..\<close>: the rows that satisfy \<open>wh\<close> are replaced one after
  the other by their image under \<open>st\<close>. The new version of a row is checked against
  the other rows as they are at that moment: the rows already replaced (\<open>before\<close>)
  and those still to come (\<open>after\<close>). The first violation fails the statement.
\<close>

fun update_rows ::
  "('r \<Rightarrow> bool) \<Rightarrow> ('r \<Rightarrow> 'r) \<Rightarrow> ('r \<Rightarrow> 'r list \<Rightarrow> sql_error option) \<Rightarrow> 'r list \<Rightarrow> 'r list
     \<Rightarrow> sql_error + 'r list" where
  "update_rows wh st chk before [] = Inr before"
| "update_rows wh st chk before (r # after) =
     (if wh r then
        (case chk (st r) (before @ after) of
           Some e \<Rightarrow> Inl e
         | None \<Rightarrow> update_rows wh st chk (before @ [st r]) after)
      else update_rows wh st chk (before @ [r]) after)"

fun first_error :: "sql_error option list \<Rightarrow> sql_error option" where
  "first_error [] = None"
| "first_error (None # es) = first_error es"
| "first_error (Some e # es) = Some e"

text \<open>
  The keys that an \<^verbatim>\<open>UPDATE\<close> of a referenced table removes: the keys of the replaced
  rows that no row of the new table has.
\<close>

definition keys_gone :: "uuid option list \<Rightarrow> uuid option list \<Rightarrow> uuid option list" where
  "keys_gone old new = filter (\<lambda>k. k \<notin> set new) old"

definition update_catalog_users ::
  "db \<Rightarrow> (catalog_users_row \<Rightarrow> bool) \<Rightarrow> (catalog_users_row \<Rightarrow> catalog_users_row)
     \<Rightarrow> sql_error + db" where
  "update_catalog_users d wh st =
     (case update_rows wh st catalog_users_constraints [] (catalog_users d) of
        Inl e \<Rightarrow> Inl e
      | Inr rows \<Rightarrow>
          (case referential cart_user_id_fkey_on_update ''cart_user_id_fkey'' cart_user_id
                  (keys_gone (map users_id (filter wh (catalog_users d))) (map users_id rows))
                  (cart d) of
             Inl e \<Rightarrow> Inl e
           | Inr c \<Rightarrow> Inr (d\<lparr>catalog_users := rows, cart := c\<rparr>)))"

definition update_catalog_parts ::
  "db \<Rightarrow> (catalog_parts_row \<Rightarrow> bool) \<Rightarrow> (catalog_parts_row \<Rightarrow> catalog_parts_row)
     \<Rightarrow> sql_error + db" where
  "update_catalog_parts d wh st =
     (case update_rows wh st catalog_parts_constraints [] (catalog_parts d) of
        Inl e \<Rightarrow> Inl e
      | Inr rows \<Rightarrow>
          (case referential cart_part_id_fkey_on_update ''cart_part_id_fkey'' cart_part_id
                  (keys_gone (map parts_id (filter wh (catalog_parts d))) (map parts_id rows))
                  (cart d) of
             Inl e \<Rightarrow> Inl e
           | Inr c \<Rightarrow> Inr (d\<lparr>catalog_parts := rows, cart := c\<rparr>)))"

text \<open>
  A foreign key of a replaced \<^verbatim>\<open>cart\<close> row is looked up again only when the
  statement changed it.
\<close>

definition cart_update_foreign_keys :: "db \<Rightarrow> cart_row \<Rightarrow> cart_row \<Rightarrow> sql_error option" where
  "cart_update_foreign_keys d old new =
     (if cart_user_id new \<noteq> cart_user_id old
         \<and> \<not> references (cart_user_id new) (map users_id (catalog_users d))
        then Some (foreign_key_violation ''cart_user_id_fkey'')
      else if cart_part_id new \<noteq> cart_part_id old
         \<and> \<not> references (cart_part_id new) (map parts_id (catalog_parts d))
        then Some (foreign_key_violation ''cart_part_id_fkey'')
      else None)"

definition update_cart ::
  "db \<Rightarrow> (cart_row \<Rightarrow> bool) \<Rightarrow> (cart_row \<Rightarrow> cart_row) \<Rightarrow> sql_error + db" where
  "update_cart d wh st =
     (case update_rows wh st cart_constraints [] (cart d) of
        Inl e \<Rightarrow> Inl e
      | Inr rows \<Rightarrow>
          (case first_error
                  (map (\<lambda>r. cart_update_foreign_keys d r (st r)) (filter wh (cart d))) of
             Some e \<Rightarrow> Inl e
           | None \<Rightarrow> Inr (d\<lparr>cart := rows\<rparr>)))"

definition update_verification_codes ::
  "db \<Rightarrow> (verification_codes_row \<Rightarrow> bool)
     \<Rightarrow> (verification_codes_row \<Rightarrow> verification_codes_row) \<Rightarrow> sql_error + db" where
  "update_verification_codes d wh st =
     (case update_rows wh st verification_codes_constraints [] (verification_codes d) of
        Inl e \<Rightarrow> Inl e
      | Inr rows \<Rightarrow> Inr (d\<lparr>verification_codes := rows\<rparr>))"

text \<open>
  \<^verbatim>\<open>DELETE FROM t WHERE ..\<close> removes the rows that satisfy \<open>wh\<close>; a foreign key
  that references \<open>t\<close> then acts on the rows that point at the removed keys.
\<close>

definition delete_catalog_users :: "db \<Rightarrow> (catalog_users_row \<Rightarrow> bool) \<Rightarrow> sql_error + db" where
  "delete_catalog_users d wh =
     (case referential cart_user_id_fkey_on_delete ''cart_user_id_fkey'' cart_user_id
             (map users_id (filter wh (catalog_users d))) (cart d) of
        Inl e \<Rightarrow> Inl e
      | Inr c \<Rightarrow>
          Inr (d\<lparr>catalog_users := filter (\<lambda>r. \<not> wh r) (catalog_users d), cart := c\<rparr>))"

definition delete_catalog_parts :: "db \<Rightarrow> (catalog_parts_row \<Rightarrow> bool) \<Rightarrow> sql_error + db" where
  "delete_catalog_parts d wh =
     (case referential cart_part_id_fkey_on_delete ''cart_part_id_fkey'' cart_part_id
             (map parts_id (filter wh (catalog_parts d))) (cart d) of
        Inl e \<Rightarrow> Inl e
      | Inr c \<Rightarrow>
          Inr (d\<lparr>catalog_parts := filter (\<lambda>r. \<not> wh r) (catalog_parts d), cart := c\<rparr>))"

definition delete_cart :: "db \<Rightarrow> (cart_row \<Rightarrow> bool) \<Rightarrow> sql_error + db" where
  "delete_cart d wh = Inr (d\<lparr>cart := filter (\<lambda>r. \<not> wh r) (cart d)\<rparr>)"

definition delete_verification_codes ::
  "db \<Rightarrow> (verification_codes_row \<Rightarrow> bool) \<Rightarrow> sql_error + db" where
  "delete_verification_codes d wh =
     Inr (d\<lparr>verification_codes := filter (\<lambda>r. \<not> wh r) (verification_codes d)\<rparr>)"

datatype statement =
    INSERT_INTO_catalog_users uuid timestamptz catalog_users_insert
  | INSERT_INTO_catalog_parts uuid timestamptz catalog_parts_insert
  | INSERT_INTO_cart uuid timestamptz cart_insert
  | INSERT_INTO_verification_codes uuid timestamptz verification_codes_insert
  | UPDATE_catalog_users "catalog_users_row \<Rightarrow> bool" "catalog_users_row \<Rightarrow> catalog_users_row"
  | UPDATE_catalog_parts "catalog_parts_row \<Rightarrow> bool" "catalog_parts_row \<Rightarrow> catalog_parts_row"
  | UPDATE_cart "cart_row \<Rightarrow> bool" "cart_row \<Rightarrow> cart_row"
  | UPDATE_verification_codes "verification_codes_row \<Rightarrow> bool"
      "verification_codes_row \<Rightarrow> verification_codes_row"
  | DELETE_FROM_catalog_users "catalog_users_row \<Rightarrow> bool"
  | DELETE_FROM_catalog_parts "catalog_parts_row \<Rightarrow> bool"
  | DELETE_FROM_cart "cart_row \<Rightarrow> bool"
  | DELETE_FROM_verification_codes "verification_codes_row \<Rightarrow> bool"

fun execute :: "db \<Rightarrow> statement \<Rightarrow> sql_error + db" where
  "execute d (INSERT_INTO_catalog_users gen now v) = insert_catalog_users d gen now v"
| "execute d (INSERT_INTO_catalog_parts gen now v) = insert_catalog_parts d gen now v"
| "execute d (INSERT_INTO_cart gen now v) = insert_cart d gen now v"
| "execute d (INSERT_INTO_verification_codes gen now v) = insert_verification_codes d gen now v"
| "execute d (UPDATE_catalog_users wh st) = update_catalog_users d wh st"
| "execute d (UPDATE_catalog_parts wh st) = update_catalog_parts d wh st"
| "execute d (UPDATE_cart wh st) = update_cart d wh st"
| "execute d (UPDATE_verification_codes wh st) = update_verification_codes d wh st"
| "execute d (DELETE_FROM_catalog_users wh) = delete_catalog_users d wh"
| "execute d (DELETE_FROM_catalog_parts wh) = delete_catalog_parts d wh"
| "execute d (DELETE_FROM_cart wh) = delete_cart d wh"
| "execute d (DELETE_FROM_verification_codes wh) = delete_verification_codes d wh"

text \<open>
  A history of statements run against the database, each in its own transaction: a
  statement that fails changes nothing and the next one runs on the same state. The
  reachable states are the states \<open>run empty_db ss\<close>.
\<close>

fun run :: "db \<Rightarrow> statement list \<Rightarrow> db" where
  "run d [] = d"
| "run d (s # ss) = (case execute d s of Inl e \<Rightarrow> run d ss | Inr d' \<Rightarrow> run d' ss)"

subsection \<open>Unique keys, and an example history\<close>

text \<open>What a unique index maintains: no two rows have the same key without \<^verbatim>\<open>NULL\<close>.\<close>

definition unique_key :: "('r \<Rightarrow> 'k option) \<Rightarrow> 'r list \<Rightarrow> bool" where
  "unique_key key rows = (\<forall>k. length (filter (\<lambda>r. key r = Some k) rows) \<le> 1)"

text \<open>\<^verbatim>\<open>INSERT INTO t DEFAULT VALUES\<close>: every column omitted.\<close>

definition catalog_users_default_values :: catalog_users_insert where
  "catalog_users_default_values =
    \<lparr>new_users_id = Omitted, new_users_email = Omitted, new_users_password_hash = Omitted,
     new_users_name = Omitted, new_users_company_name = Omitted, new_users_address = Omitted,
     new_users_phone_number = Omitted, new_users_status = Omitted, new_users_is_admin = Omitted,
     new_users_created_at = Omitted, new_users_updated_at = Omitted\<rparr>"

definition catalog_parts_default_values :: catalog_parts_insert where
  "catalog_parts_default_values =
    \<lparr>new_parts_id = Omitted, new_parts_part_number = Omitted, new_parts_name_en = Omitted,
     new_parts_name_ru = Omitted, new_parts_category = Omitted, new_parts_price = Omitted,
     new_parts_qty = Omitted, new_parts_image_url = Omitted, new_parts_created_at = Omitted,
     new_parts_updated_at = Omitted\<rparr>"

definition cart_default_values :: cart_insert where
  "cart_default_values =
    \<lparr>new_cart_id = Omitted, new_cart_user_id = Omitted, new_cart_part_id = Omitted,
     new_cart_quantity = Omitted, new_cart_created_at = Omitted\<rparr>"

text \<open>
  A small history: two users, two parts, and four cart rows, one of them without a user.
  \<open>example_db\<close> is the state it leads to.
\<close>

definition example_history :: "statement list" where
  "example_history =
    [INSERT_INTO_catalog_users 1 100
       (catalog_users_default_values\<lparr>new_users_email := Value ''ann@example.com'',
          new_users_password_hash := Value ''x'', new_users_name := Value ''Ann''\<rparr>),
     INSERT_INTO_catalog_users 2 100
       (catalog_users_default_values\<lparr>new_users_email := Value ''bob@example.com'',
          new_users_password_hash := Value ''y'', new_users_name := Value ''Bob''\<rparr>),
     INSERT_INTO_catalog_parts 10 100
       (catalog_parts_default_values\<lparr>new_parts_part_number := Value ''A-1'',
          new_parts_name_en := Value ''Filter'', new_parts_name_ru := Value ''Filtr'',
          new_parts_category := Value ''engine'', new_parts_price := Value 5\<rparr>),
     INSERT_INTO_catalog_parts 11 100
       (catalog_parts_default_values\<lparr>new_parts_part_number := Value ''B-2'',
          new_parts_name_en := Value ''Belt'', new_parts_name_ru := Value ''Remen'',
          new_parts_category := Value ''engine'', new_parts_price := Value 7\<rparr>),
     INSERT_INTO_cart 20 100
       (cart_default_values\<lparr>new_cart_user_id := Value 1, new_cart_part_id := Value 10\<rparr>),
     INSERT_INTO_cart 21 100
       (cart_default_values\<lparr>new_cart_user_id := Value 2, new_cart_part_id := Value 10\<rparr>),
     INSERT_INTO_cart 22 100
       (cart_default_values\<lparr>new_cart_part_id := Value 10\<rparr>),
     INSERT_INTO_cart 23 100
       (cart_default_values\<lparr>new_cart_user_id := Value 1, new_cart_part_id := Value 11\<rparr>)]"

definition example_db :: db where
  "example_db =
    \<lparr>catalog_users =
       [\<lparr>users_id = Some 1, users_email = Some ''ann@example.com'',
         users_password_hash = Some ''x'', users_name = Some ''Ann'',
         users_company_name = Some [], users_address = Some [],
         users_phone_number = Some [], users_status = Some ''pending'',
         users_is_admin = Some False, users_created_at = Some 100,
         users_updated_at = Some 100\<rparr>,
        \<lparr>users_id = Some 2, users_email = Some ''bob@example.com'',
         users_password_hash = Some ''y'', users_name = Some ''Bob'',
         users_company_name = Some [], users_address = Some [],
         users_phone_number = Some [], users_status = Some ''pending'',
         users_is_admin = Some False, users_created_at = Some 100,
         users_updated_at = Some 100\<rparr>],
     catalog_parts =
       [\<lparr>parts_id = Some 10, parts_part_number = Some ''A-1'', parts_name_en = Some ''Filter'',
         parts_name_ru = Some ''Filtr'', parts_category = Some ''engine'',
         parts_price = Some 5, parts_qty = Some 0, parts_image_url = None,
         parts_created_at = Some 100, parts_updated_at = Some 100\<rparr>,
        \<lparr>parts_id = Some 11, parts_part_number = Some ''B-2'', parts_name_en = Some ''Belt'',
         parts_name_ru = Some ''Remen'', parts_category = Some ''engine'',
         parts_price = Some 7, parts_qty = Some 0, parts_image_url = None,
         parts_created_at = Some 100, parts_updated_at = Some 100\<rparr>],
     cart =
       [\<lparr>cart_id = Some 20, cart_user_id = Some 1, cart_part_id = Some 10,
         cart_quantity = Some 1, cart_created_at = Some 100\<rparr>,
        \<lparr>cart_id = Some 21, cart_user_id = Some 2, cart_part_id = Some 10,
         cart_quantity = Some 1, cart_created_at = Some 100\<rparr>,
        \<lparr>cart_id = Some 22, cart_user_id = None, cart_part_id = Some 10,
         cart_quantity = Some 1, cart_created_at = Some 100\<rparr>,
        \<lparr>cart_id = Some 23, cart_user_id = Some 1, cart_part_id = Some 11,
         cart_quantity = Some 1, cart_created_at = Some 100\<rparr>],
     verification_codes = []\<rparr>"

section \<open>Properties of the client bootstrap\<close>

text \<open>
  Claim C2, as stated: a missing configuration value is the only failure mode of client
  construction. It fails: with both values present the module calls the constructor of
  the client library, and an error of that constructor is thrown by the module. With
  the URL \<^verbatim>\<open>localhost\<close> and the key \<^verbatim>\<open>k\<close>, both present, a validating constructor
  throws, and the module fails with that error, which is not the fixed message.
\<close>

theorem constructor_fault_counterexample:
  "truthy (supabaseUrl \<lparr>VITE_SUPABASE_URL = Some ''localhost'', VITE_SUPABASE_ANON_KEY = Some ''k''\<rparr>
             \<lparr>SUPABASE_URL = None, SUPABASE_ANON_KEY = None\<rparr>)
   \<and> truthy (supabaseAnonKey
             \<lparr>VITE_SUPABASE_URL = Some ''localhost'', VITE_SUPABASE_ANON_KEY = Some ''k''\<rparr>
             \<lparr>SUPABASE_URL = None, SUPABASE_ANON_KEY = None\<rparr>)
   \<and> snd (supabase createClient_validating
             \<lparr>VITE_SUPABASE_URL = Some ''localhost'', VITE_SUPABASE_ANON_KEY = Some ''k''\<rparr>
             \<lparr>SUPABASE_URL = None, SUPABASE_ANON_KEY = None\<rparr>)
     = Inl (Error ''Invalid supabaseUrl: Must be a valid HTTP or HTTPS URL.'')
   \<and> snd (supabase createClient_validating
             \<lparr>VITE_SUPABASE_URL = Some ''localhost'', VITE_SUPABASE_ANON_KEY = Some ''k''\<rparr>
             \<lparr>SUPABASE_URL = None, SUPABASE_ANON_KEY = None\<rparr>)
     \<noteq> Inl (Error ''Missing Supabase environment variables. Please restart the dev server.'')"
proof -
  have u: "supabaseUrl
             \<lparr>VITE_SUPABASE_URL = Some ''localhost'', VITE_SUPABASE_ANON_KEY = Some ''k''\<rparr>
             \<lparr>SUPABASE_URL = None, SUPABASE_ANON_KEY = None\<rparr> = Some ''localhost''"
    by (simp add: supabaseUrl_def js_or_def truthy_def)
  have k: "supabaseAnonKey
             \<lparr>VITE_SUPABASE_URL = Some ''localhost'', VITE_SUPABASE_ANON_KEY = Some ''k''\<rparr>
             \<lparr>SUPABASE_URL = None, SUPABASE_ANON_KEY = None\<rparr> = Some ''k''"
    by (simp add: supabaseAnonKey_def js_or_def truthy_def)
  have t: "truthy (Some ''localhost'')" "truthy (Some ''k'')"
    by (simp_all add: truthy_def)
  have cv: "createClient_validating (Some ''localhost'') (Some ''k'')
              \<lparr>autoRefreshToken = False, persistSession = False, detectSessionInUrl = False\<rparr>
            = Inl (Error ''Invalid supabaseUrl: Must be a valid HTTP or HTTPS URL.'')"
    by (simp add: createClient_validating_def)
  show ?thesis
    unfolding supabase_def u k cv using t by simp
qed

text \<open>
  Claim C2, amended. A configuration value is absent when the module's test
  \<^verbatim>\<open>!value\<close> holds of it, that is when it is \<^verbatim>\<open>undefined\<close> or the empty string. If
  the endpoint URL or the anonymous key is absent, evaluating the module throws the
  error with the fixed message and exports no handle, whatever the constructor would
  do. If both are present, the outcome of the module is the outcome of calling
  \<open>createClient\<close> with the two values and the options. So the module fails in two
  ways only: with the fixed message when a value is absent, and with the constructor's
  own error when both values are present and the constructor throws.
\<close>

theorem supabase_throws_missing_or_constructor:
  "(\<not> truthy (supabaseUrl e c) \<or> \<not> truthy (supabaseAnonKey e c) \<longrightarrow>
      snd (supabase createClient e c) =
        Inl (Error ''Missing Supabase environment variables. Please restart the dev server.''))
   \<and> (truthy (supabaseUrl e c) \<and> truthy (supabaseAnonKey e c) \<longrightarrow>
      snd (supabase createClient e c) =
        createClient (supabaseUrl e c) (supabaseAnonKey e c)
          \<lparr>autoRefreshToken = False, persistSession = False, detectSessionInUrl = False\<rparr>)
   \<and> (\<forall>err. snd (supabase createClient e c) = Inl err \<longrightarrow>
         (err = Error ''Missing Supabase environment variables. Please restart the dev server.''
            \<and> (\<not> truthy (supabaseUrl e c) \<or> \<not> truthy (supabaseAnonKey e c)))
         \<or> (truthy (supabaseUrl e c) \<and> truthy (supabaseAnonKey e c)
            \<and> createClient (supabaseUrl e c) (supabaseAnonKey e c)
                 \<lparr>autoRefreshToken = False, persistSession = False,
                  detectSessionInUrl = False\<rparr> = Inl err))"
proof (cases "\<not> truthy (supabaseUrl e c) \<or> \<not> truthy (supabaseAnonKey e c)")
  case True
  then have "snd (supabase createClient e c) =
      Inl (Error ''Missing Supabase environment variables. Please restart the dev server.'')"
    by (simp add: supabase_def)
  with True show ?thesis by auto
next
  case False
  then have "snd (supabase createClient e c) =
      createClient (supabaseUrl e c) (supabaseAnonKey e c)
        \<lparr>autoRefreshToken = False, persistSession = False, detectSessionInUrl = False\<rparr>"
    by (simp add: supabase_def)
  with False show ?thesis by auto
qed

theorem supabase_throws_missing_or_constructor_witness:
  "\<not> truthy (supabaseAnonKey
        \<lparr>VITE_SUPABASE_URL = Some ''https://x.supabase.co'', VITE_SUPABASE_ANON_KEY = None\<rparr>
        \<lparr>SUPABASE_URL = None, SUPABASE_ANON_KEY = Some []\<rparr>)
   \<and> snd (supabase createClient_validating
        \<lparr>VITE_SUPABASE_URL = Some ''https://x.supabase.co'', VITE_SUPABASE_ANON_KEY = None\<rparr>
        \<lparr>SUPABASE_URL = None, SUPABASE_ANON_KEY = Some []\<rparr>) =
      Inl (Error ''Missing Supabase environment variables. Please restart the dev server.'')"
proof -
  have m: "\<not> truthy (supabaseAnonKey
        \<lparr>VITE_SUPABASE_URL = Some ''https://x.supabase.co'', VITE_SUPABASE_ANON_KEY = None\<rparr>
        \<lparr>SUPABASE_URL = None, SUPABASE_ANON_KEY = Some []\<rparr>)"
    by (simp add: supabaseAnonKey_def js_or_def truthy_def)
  from supabase_throws_missing_or_constructor
    [where e = "\<lparr>VITE_SUPABASE_URL = Some ''https://x.supabase.co'',
                  VITE_SUPABASE_ANON_KEY = None\<rparr>"
       and c = "\<lparr>SUPABASE_URL = None, SUPABASE_ANON_KEY = Some []\<rparr>"
       and createClient = createClient_validating] m
  show ?thesis by blast
qed

text \<open>
  Claim C8, as stated: with both configuration values present, construction succeeds
  without throwing. It fails: the values \<^verbatim>\<open>u\<close> and \<^verbatim>\<open>k\<close> are both present, the
  module calls the constructor with them, the constructor throws on such a URL, and no
  handle is exported.
\<close>

theorem present_values_throw_counterexample:
  "truthy (supabaseUrl \<lparr>VITE_SUPABASE_URL = None, VITE_SUPABASE_ANON_KEY = Some ''k''\<rparr>
             \<lparr>SUPABASE_URL = Some ''u'', SUPABASE_ANON_KEY = None\<rparr>)
   \<and> truthy (supabaseAnonKey \<lparr>VITE_SUPABASE_URL = None, VITE_SUPABASE_ANON_KEY = Some ''k''\<rparr>
             \<lparr>SUPABASE_URL = Some ''u'', SUPABASE_ANON_KEY = None\<rparr>)
   \<and> isl (snd (supabase createClient_validating
             \<lparr>VITE_SUPABASE_URL = None, VITE_SUPABASE_ANON_KEY = Some ''k''\<rparr>
             \<lparr>SUPABASE_URL = Some ''u'', SUPABASE_ANON_KEY = None\<rparr>))"
proof -
  have u: "supabaseUrl \<lparr>VITE_SUPABASE_URL = None, VITE_SUPABASE_ANON_KEY = Some ''k''\<rparr>
             \<lparr>SUPABASE_URL = Some ''u'', SUPABASE_ANON_KEY = None\<rparr> = Some ''u''"
    by (simp add: supabaseUrl_def js_or_def truthy_def)
  have k: "supabaseAnonKey \<lparr>VITE_SUPABASE_URL = None, VITE_SUPABASE_ANON_KEY = Some ''k''\<rparr>
             \<lparr>SUPABASE_URL = Some ''u'', SUPABASE_ANON_KEY = None\<rparr> = Some ''k''"
    by (simp add: supabaseAnonKey_def js_or_def truthy_def)
  have t: "truthy (Some ''u'')" "truthy (Some ''k'')"
    by (simp_all add: truthy_def)
  have cv: "createClient_validating (Some ''u'') (Some ''k'')
              \<lparr>autoRefreshToken = False, persistSession = False, detectSessionInUrl = False\<rparr>
            = Inl (Error ''Invalid supabaseUrl: Must be a valid HTTP or HTTPS URL.'')"
    by (simp add: createClient_validating_def)
  show ?thesis
    unfolding supabase_def u k cv using t by simp
qed

text \<open>
  Claim C8, amended. When the endpoint URL and the anonymous key are both present,
  evaluating the module logs nothing and throws no error of its own: it calls
  \<open>createClient\<close> with these two values and the options with automatic token refresh,
  session persistence and session detection in the URL all switched off, and the
  outcome of that call is the outcome of the module. The module exports the handle the
  constructor returns, and fails with the constructor's error when the constructor
  throws.
\<close>

theorem supabase_present_calls_createClient:
  "truthy (supabaseUrl e c) \<Longrightarrow> truthy (supabaseAnonKey e c) \<Longrightarrow>
   supabase createClient e c =
     ([], createClient (supabaseUrl e c) (supabaseAnonKey e c)
            \<lparr>autoRefreshToken = False, persistSession = False,
             detectSessionInUrl = False\<rparr>)"
  by (simp add: supabase_def)

theorem supabase_present_calls_createClient_witness:
  "truthy (supabaseUrl \<lparr>VITE_SUPABASE_URL = None, VITE_SUPABASE_ANON_KEY = Some ''k''\<rparr>
             \<lparr>SUPABASE_URL = Some ''https://x.supabase.co'', SUPABASE_ANON_KEY = None\<rparr>)
   \<and> truthy (supabaseAnonKey \<lparr>VITE_SUPABASE_URL = None, VITE_SUPABASE_ANON_KEY = Some ''k''\<rparr>
             \<lparr>SUPABASE_URL = Some ''https://x.supabase.co'', SUPABASE_ANON_KEY = None\<rparr>)
   \<and> supabase createClient_validating
        \<lparr>VITE_SUPABASE_URL = None, VITE_SUPABASE_ANON_KEY = Some ''k''\<rparr>
        \<lparr>SUPABASE_URL = Some ''https://x.supabase.co'', SUPABASE_ANON_KEY = None\<rparr> =
      ([], Inr (''https://x.supabase.co'', ''k'',
                \<lparr>autoRefreshToken = False, persistSession = False,
                 detectSessionInUrl = False\<rparr>))"
proof -
  have u: "supabaseUrl \<lparr>VITE_SUPABASE_URL = None, VITE_SUPABASE_ANON_KEY = Some ''k''\<rparr>
             \<lparr>SUPABASE_URL = Some ''https://x.supabase.co'', SUPABASE_ANON_KEY = None\<rparr>
           = Some ''https://x.supabase.co''"
    by (simp add: supabaseUrl_def js_or_def truthy_def)
  have k: "supabaseAnonKey \<lparr>VITE_SUPABASE_URL = None, VITE_SUPABASE_ANON_KEY = Some ''k''\<rparr>
             \<lparr>SUPABASE_URL = Some ''https://x.supabase.co'', SUPABASE_ANON_KEY = None\<rparr>
           = Some ''k''"
    by (simp add: supabaseAnonKey_def js_or_def truthy_def)
  have tu: "truthy (supabaseUrl \<lparr>VITE_SUPABASE_URL = None, VITE_SUPABASE_ANON_KEY = Some ''k''\<rparr>
             \<lparr>SUPABASE_URL = Some ''https://x.supabase.co'', SUPABASE_ANON_KEY = None\<rparr>)"
    unfolding u by (simp add: truthy_def)
  have tk: "truthy (supabaseAnonKey
             \<lparr>VITE_SUPABASE_URL = None, VITE_SUPABASE_ANON_KEY = Some ''k''\<rparr>
             \<lparr>SUPABASE_URL = Some ''https://x.supabase.co'', SUPABASE_ANON_KEY = None\<rparr>)"
    unfolding k by (simp add: truthy_def)
  have cv: "createClient_validating (Some ''https://x.supabase.co'') (Some ''k'')
              \<lparr>autoRefreshToken = False, persistSession = False, detectSessionInUrl = False\<rparr>
            = Inr (''https://x.supabase.co'', ''k'',
                   \<lparr>autoRefreshToken = False, persistSession = False,
                    detectSessionInUrl = False\<rparr>)"
    by (simp add: createClient_validating_def)
  note r = supabase_present_calls_createClient
    [where createClient = createClient_validating, OF tu tk, unfolded u k cv]
  from tu tk r show ?thesis by (intro conjI)
qed

text \<open>
  Claim C9, as stated: the log reports only whether each configuration value is present.
  It fails for the endpoint URL, which is logged as it is: two failing configurations
  that agree on the presence of both values, and differ in the URL, log differently.
\<close>

theorem log_presence_only_counterexample:
  "truthy (supabaseUrl \<lparr>VITE_SUPABASE_URL = Some ''a'', VITE_SUPABASE_ANON_KEY = None\<rparr>
             \<lparr>SUPABASE_URL = None, SUPABASE_ANON_KEY = None\<rparr>)
   = truthy (supabaseUrl \<lparr>VITE_SUPABASE_URL = Some ''b'', VITE_SUPABASE_ANON_KEY = None\<rparr>
             \<lparr>SUPABASE_URL = None, SUPABASE_ANON_KEY = None\<rparr>)
   \<and> truthy (supabaseAnonKey \<lparr>VITE_SUPABASE_URL = Some ''a'', VITE_SUPABASE_ANON_KEY = None\<rparr>
             \<lparr>SUPABASE_URL = None, SUPABASE_ANON_KEY = None\<rparr>)
   = truthy (supabaseAnonKey \<lparr>VITE_SUPABASE_URL = Some ''b'', VITE_SUPABASE_ANON_KEY = None\<rparr>
             \<lparr>SUPABASE_URL = None, SUPABASE_ANON_KEY = None\<rparr>)
   \<and> isl (snd (supabase createClient_validating
             \<lparr>VITE_SUPABASE_URL = Some ''a'', VITE_SUPABASE_ANON_KEY = None\<rparr>
             \<lparr>SUPABASE_URL = None, SUPABASE_ANON_KEY = None\<rparr>))
   \<and> isl (snd (supabase createClient_validating
             \<lparr>VITE_SUPABASE_URL = Some ''b'', VITE_SUPABASE_ANON_KEY = None\<rparr>
             \<lparr>SUPABASE_URL = None, SUPABASE_ANON_KEY = None\<rparr>))
   \<and> fst (supabase createClient_validating
             \<lparr>VITE_SUPABASE_URL = Some ''a'', VITE_SUPABASE_ANON_KEY = None\<rparr>
             \<lparr>SUPABASE_URL = None, SUPABASE_ANON_KEY = None\<rparr>)
   \<noteq> fst (supabase createClient_validating
             \<lparr>VITE_SUPABASE_URL = Some ''b'', VITE_SUPABASE_ANON_KEY = None\<rparr>
             \<lparr>SUPABASE_URL = None, SUPABASE_ANON_KEY = None\<rparr>)"
proof -
  have ua: "supabaseUrl \<lparr>VITE_SUPABASE_URL = Some ''a'', VITE_SUPABASE_ANON_KEY = None\<rparr>
             \<lparr>SUPABASE_URL = None, SUPABASE_ANON_KEY = None\<rparr> = Some ''a''"
    by (simp add: supabaseUrl_def js_or_def truthy_def)
  have ub: "supabaseUrl \<lparr>VITE_SUPABASE_URL = Some ''b'', VITE_SUPABASE_ANON_KEY = None\<rparr>
             \<lparr>SUPABASE_URL = None, SUPABASE_ANON_KEY = None\<rparr> = Some ''b''"
    by (simp add: supabaseUrl_def js_or_def truthy_def)
  have ka: "supabaseAnonKey \<lparr>VITE_SUPABASE_URL = Some ''a'', VITE_SUPABASE_ANON_KEY = None\<rparr>
             \<lparr>SUPABASE_URL = None, SUPABASE_ANON_KEY = None\<rparr> = None"
    by (simp add: supabaseAnonKey_def js_or_def truthy_def)
  have kb: "supabaseAnonKey \<lparr>VITE_SUPABASE_URL = Some ''b'', VITE_SUPABASE_ANON_KEY = None\<rparr>
             \<lparr>SUPABASE_URL = None, SUPABASE_ANON_KEY = None\<rparr> = None"
    by (simp add: supabaseAnonKey_def js_or_def truthy_def)
  have t: "truthy (Some ''a'')" "truthy (Some ''b'')" "\<not> truthy None"
    by (simp_all add: truthy_def)
  show ?thesis
    unfolding supabase_def ua ub ka kb using t by simp
qed

text \<open>
  Claim C9, amended. When the module fails because a configuration value is absent,
  it logs one entry before the error: the label, the endpoint URL as it is, and for the
  anonymous key the word \<^verbatim>\<open>exists\<close> or \<^verbatim>\<open>missing\<close>, according to whether the key is
  present. The log never contains the key: every entry has the URL as it is and one of
  the two words for the key, and two evaluations with the same URL and keys of the same
  presence status (both present or both absent) log the same, whatever the keys and
  the constructors are.
\<close>

theorem log_independent_of_key_value:
  "supabaseUrl e c = supabaseUrl e' c' \<Longrightarrow>
   truthy (supabaseAnonKey e c) = truthy (supabaseAnonKey e' c') \<Longrightarrow>
   fst (supabase createClient e c) = fst (supabase createClient' e' c')
   \<and> (\<forall>l \<in> set (fst (supabase createClient e c)).
         log_VITE_SUPABASE_ANON_KEY l \<in> {''exists'', ''missing''}
         \<and> log_VITE_SUPABASE_URL l = supabaseUrl e c
         \<and> log_label l = ''Environment variables:'')
   \<and> (\<not> truthy (supabaseUrl e c) \<or> \<not> truthy (supabaseAnonKey e c) \<longrightarrow>
        fst (supabase createClient e c) =
          [\<lparr>log_label = ''Environment variables:'',
            log_VITE_SUPABASE_URL = supabaseUrl e c,
            log_VITE_SUPABASE_ANON_KEY =
              (if truthy (supabaseAnonKey e c) then ''exists'' else ''missing'')\<rparr>])
   \<and> (truthy (supabaseUrl e c) \<and> truthy (supabaseAnonKey e c) \<longrightarrow>
        fst (supabase createClient e c) = [])"
  by (simp add: supabase_def)

theorem log_independent_of_key_value_witness:
  "supabaseUrl \<lparr>VITE_SUPABASE_URL = None, VITE_SUPABASE_ANON_KEY = Some ''secret-1''\<rparr>
               \<lparr>SUPABASE_URL = None, SUPABASE_ANON_KEY = None\<rparr>
   = supabaseUrl \<lparr>VITE_SUPABASE_URL = None, VITE_SUPABASE_ANON_KEY = Some ''secret-2''\<rparr>
               \<lparr>SUPABASE_URL = None, SUPABASE_ANON_KEY = None\<rparr>
   \<and> truthy (supabaseAnonKey
               \<lparr>VITE_SUPABASE_URL = None, VITE_SUPABASE_ANON_KEY = Some ''secret-1''\<rparr>
               \<lparr>SUPABASE_URL = None, SUPABASE_ANON_KEY = None\<rparr>)
   \<and> truthy (supabaseAnonKey
               \<lparr>VITE_SUPABASE_URL = None, VITE_SUPABASE_ANON_KEY = Some ''secret-2''\<rparr>
               \<lparr>SUPABASE_URL = None, SUPABASE_ANON_KEY = None\<rparr>)
   \<and> fst (supabase createClient_validating
               \<lparr>VITE_SUPABASE_URL = None, VITE_SUPABASE_ANON_KEY = Some ''secret-1''\<rparr>
               \<lparr>SUPABASE_URL = None, SUPABASE_ANON_KEY = None\<rparr>)
     = fst (supabase createClient_validating
               \<lparr>VITE_SUPABASE_URL = None, VITE_SUPABASE_ANON_KEY = Some ''secret-2''\<rparr>
               \<lparr>SUPABASE_URL = None, SUPABASE_ANON_KEY = None\<rparr>)
   \<and> fst (supabase createClient_validating
               \<lparr>VITE_SUPABASE_URL = None, VITE_SUPABASE_ANON_KEY = Some ''secret-1''\<rparr>
               \<lparr>SUPABASE_URL = None, SUPABASE_ANON_KEY = None\<rparr>)
     = [\<lparr>log_label = ''Environment variables:'', log_VITE_SUPABASE_URL = None,
         log_VITE_SUPABASE_ANON_KEY = ''exists''\<rparr>]"
proof -
  have u: "supabaseUrl \<lparr>VITE_SUPABASE_URL = None, VITE_SUPABASE_ANON_KEY = Some ''secret-1''\<rparr>
               \<lparr>SUPABASE_URL = None, SUPABASE_ANON_KEY = None\<rparr>
     = supabaseUrl \<lparr>VITE_SUPABASE_URL = None, VITE_SUPABASE_ANON_KEY = Some ''secret-2''\<rparr>
               \<lparr>SUPABASE_URL = None, SUPABASE_ANON_KEY = None\<rparr>"
    by (simp add: supabaseUrl_def)
  have k1: "truthy (supabaseAnonKey
               \<lparr>VITE_SUPABASE_URL = None, VITE_SUPABASE_ANON_KEY = Some ''secret-1''\<rparr>
               \<lparr>SUPABASE_URL = None, SUPABASE_ANON_KEY = None\<rparr>)"
    by (simp add: supabaseAnonKey_def js_or_def truthy_def)
  have k2: "truthy (supabaseAnonKey
               \<lparr>VITE_SUPABASE_URL = None, VITE_SUPABASE_ANON_KEY = Some ''secret-2''\<rparr>
               \<lparr>SUPABASE_URL = None, SUPABASE_ANON_KEY = None\<rparr>)"
    by (simp add: supabaseAnonKey_def js_or_def truthy_def)
  have n: "supabaseUrl \<lparr>VITE_SUPABASE_URL = None, VITE_SUPABASE_ANON_KEY = Some ''secret-1''\<rparr>
               \<lparr>SUPABASE_URL = None, SUPABASE_ANON_KEY = None\<rparr> = None"
    by (simp add: supabaseUrl_def js_or_def truthy_def)
  have nt: "\<not> truthy (supabaseUrl
               \<lparr>VITE_SUPABASE_URL = None, VITE_SUPABASE_ANON_KEY = Some ''secret-1''\<rparr>
               \<lparr>SUPABASE_URL = None, SUPABASE_ANON_KEY = None\<rparr>)"
    unfolding n by (simp add: truthy_def)
  from k1 k2 have ke: "truthy (supabaseAnonKey
               \<lparr>VITE_SUPABASE_URL = None, VITE_SUPABASE_ANON_KEY = Some ''secret-1''\<rparr>
               \<lparr>SUPABASE_URL = None, SUPABASE_ANON_KEY = None\<rparr>)
     = truthy (supabaseAnonKey
               \<lparr>VITE_SUPABASE_URL = None, VITE_SUPABASE_ANON_KEY = Some ''secret-2''\<rparr>
               \<lparr>SUPABASE_URL = None, SUPABASE_ANON_KEY = None\<rparr>)"
    by simp
  note t = log_independent_of_key_value
    [where createClient = createClient_validating and createClient' = createClient_validating,
     OF u ke]
  from t have eq: "fst (supabase createClient_validating
               \<lparr>VITE_SUPABASE_URL = None, VITE_SUPABASE_ANON_KEY = Some ''secret-1''\<rparr>
               \<lparr>SUPABASE_URL = None, SUPABASE_ANON_KEY = None\<rparr>)
     = fst (supabase createClient_validating
               \<lparr>VITE_SUPABASE_URL = None, VITE_SUPABASE_ANON_KEY = Some ''secret-2''\<rparr>
               \<lparr>SUPABASE_URL = None, SUPABASE_ANON_KEY = None\<rparr>)"
    by (rule conjunct1)
  from t nt have "fst (supabase createClient_validating
               \<lparr>VITE_SUPABASE_URL = None, VITE_SUPABASE_ANON_KEY = Some ''secret-1''\<rparr>
               \<lparr>SUPABASE_URL = None, SUPABASE_ANON_KEY = None\<rparr>)
     = [\<lparr>log_label = ''Environment variables:'',
         log_VITE_SUPABASE_URL = supabaseUrl
               \<lparr>VITE_SUPABASE_URL = None, VITE_SUPABASE_ANON_KEY = Some ''secret-1''\<rparr>
               \<lparr>SUPABASE_URL = None, SUPABASE_ANON_KEY = None\<rparr>,
         log_VITE_SUPABASE_ANON_KEY =
           (if truthy (supabaseAnonKey
               \<lparr>VITE_SUPABASE_URL = None, VITE_SUPABASE_ANON_KEY = Some ''secret-1''\<rparr>
               \<lparr>SUPABASE_URL = None, SUPABASE_ANON_KEY = None\<rparr>)
            then ''exists'' else ''missing'')\<rparr>]"
    by blast
  with k1 n have l: "fst (supabase createClient_validating
               \<lparr>VITE_SUPABASE_URL = None, VITE_SUPABASE_ANON_KEY = Some ''secret-1''\<rparr>
               \<lparr>SUPABASE_URL = None, SUPABASE_ANON_KEY = None\<rparr>)
     = [\<lparr>log_label = ''Environment variables:'', log_VITE_SUPABASE_URL = None,
         log_VITE_SUPABASE_ANON_KEY = ''exists''\<rparr>]"
    by (simp only: if_True)
  from u k1 k2 eq l show ?thesis by (intro conjI)
qed

section \<open>Properties of the policy set\<close>

lemma permitted_anon:
  "permitted ''anon'' cmd t =
     (\<not> (cmd = DELETE \<and> (t = catalog_users_table \<or> t = verification_codes_table)))"
  by (cases cmd; cases t;
      simp add: permitted_def row_level_security_def policies_def applies_def using_expr_def
        with_check_expr_def)

lemma permitted_authenticated:
  "permitted ''authenticated'' cmd t =
     (\<not> (cmd = DELETE \<and> (t = catalog_users_table \<or> t = verification_codes_table)))"
  by (cases cmd; cases t;
      simp add: permitted_def row_level_security_def policies_def applies_def using_expr_def
        with_check_expr_def)

text \<open>
  Claim C1, as stated: the only command no policy permits is \<^verbatim>\<open>DELETE\<close> on
  \<^verbatim>\<open>verification_codes\<close>, and \<^verbatim>\<open>DELETE\<close> on \<^verbatim>\<open>catalog_users\<close> is permitted.
  It fails: no policy of the migration permits \<^verbatim>\<open>DELETE\<close> on \<^verbatim>\<open>catalog_users\<close>.
\<close>

theorem delete_catalog_users_counterexample:
  "\<not> permitted ''anon'' DELETE catalog_users_table"
  by (simp add: permitted_def row_level_security_def policies_def applies_def using_expr_def)

text \<open>
  Claim C1, amended. For the roles \<^verbatim>\<open>anon\<close> and \<^verbatim>\<open>authenticated\<close> the policies
  permit every command on every one of the four tables with two exceptions: no policy
  permits \<^verbatim>\<open>DELETE\<close> on \<^verbatim>\<open>verification_codes\<close>, and none permits \<^verbatim>\<open>DELETE\<close> on
  \<^verbatim>\<open>catalog_users\<close>. Every command, \<^verbatim>\<open>DELETE\<close> included, is permitted on
  \<^verbatim>\<open>catalog_parts\<close> and on \<^verbatim>\<open>cart\<close>.
\<close>

theorem policies_permit_all_but_two_deletes:
  "role \<in> {''anon'', ''authenticated''} \<Longrightarrow>
   permitted role cmd t =
     (\<not> (cmd = DELETE \<and> (t = catalog_users_table \<or> t = verification_codes_table)))"
  using permitted_anon permitted_authenticated by blast

theorem policies_permit_all_but_two_deletes_witness:
  "''authenticated'' \<in> {''anon'', ''authenticated''}
   \<and> permitted ''authenticated'' DELETE cart_table
   \<and> permitted ''authenticated'' DELETE catalog_parts_table
   \<and> \<not> permitted ''authenticated'' DELETE verification_codes_table
   \<and> permitted ''authenticated'' UPDATE catalog_users_table"
  using policies_permit_all_but_two_deletes [of "''authenticated''" DELETE cart_table]
    policies_permit_all_but_two_deletes [of "''authenticated''" DELETE catalog_parts_table]
    policies_permit_all_but_two_deletes [of "''authenticated''" DELETE verification_codes_table]
    policies_permit_all_but_two_deletes [of "''authenticated''" UPDATE catalog_users_table]
  by simp

section \<open>Tables under the statements\<close>

subsection \<open>Unique keys and row properties\<close>

lemma unique_key_Nil: "unique_key key []"
  by (simp add: unique_key_def)

lemma unique_key_filter: "unique_key key rows \<Longrightarrow> unique_key key (filter P rows)"
proof -
  assume u: "unique_key key rows"
  have "length (filter (\<lambda>r. key r = Some k) (filter P rows))
        \<le> length (filter (\<lambda>r. key r = Some k) rows)" for k
  proof -
    have a: "filter (\<lambda>r. key r = Some k) (filter P rows)
             = filter P (filter (\<lambda>r. key r = Some k) rows)"
      by (induction rows) auto
    have b: "length (filter P (filter (\<lambda>r. key r = Some k) rows))
             \<le> length (filter (\<lambda>r. key r = Some k) rows)"
      by (rule length_filter_le)
    show ?thesis unfolding a by (rule b)
  qed
  with u show ?thesis
    unfolding unique_key_def using le_trans by blast
qed

lemma no_conflict_filter_empty:
  "\<not> unique_conflict key r others \<Longrightarrow> key r = Some k \<Longrightarrow>
   filter (\<lambda>x. key x = Some k) others = []"
  by (auto simp add: unique_conflict_def filter_empty_conv)

lemma unique_key_insert:
  assumes "unique_key key (before @ after)" and "\<not> unique_conflict key r (before @ after)"
  shows "unique_key key (before @ r # after)"
  unfolding unique_key_def
proof
  fix k
  show "length (filter (\<lambda>x. key x = Some k) (before @ r # after)) \<le> 1"
  proof (cases "key r = Some k")
    case True
    from no_conflict_filter_empty [OF assms(2) True]
    have "filter (\<lambda>x. key x = Some k) before = []" "filter (\<lambda>x. key x = Some k) after = []"
      by simp_all
    with True show ?thesis by simp
  next
    case False
    with assms(1) show ?thesis by (simp add: unique_key_def)
  qed
qed

lemma unique_key_remove:
  assumes "unique_key key (before @ r # after)"
  shows "unique_key key (before @ after)"
  unfolding unique_key_def
proof
  fix k
  have "length (filter (\<lambda>x. key x = Some k) (before @ after))
        \<le> length (filter (\<lambda>x. key x = Some k) (before @ r # after))"
    by simp
  with assms show "length (filter (\<lambda>x. key x = Some k) (before @ after)) \<le> 1"
    unfolding unique_key_def using le_trans by blast
qed

lemma update_rows_unique_key:
  assumes chk: "\<And>r others. chk r others = None \<Longrightarrow> \<not> unique_conflict key r others"
  shows "unique_key key (before @ after) \<Longrightarrow> update_rows wh st chk before after = Inr rows \<Longrightarrow>
         unique_key key rows"
proof (induction after arbitrary: before)
  case Nil
  then show ?case by simp
next
  case (Cons r after)
  show ?case
  proof (cases "wh r")
    case True
    with Cons.prems(2) obtain
      ok: "chk (st r) (before @ after) = None" and
      rest: "update_rows wh st chk (before @ [st r]) after = Inr rows"
      by (auto split: option.splits)
    from Cons.prems(1) have "unique_key key (before @ after)" by (rule unique_key_remove)
    from this chk [OF ok] have "unique_key key (before @ st r # after)"
      by (rule unique_key_insert)
    then have "unique_key key ((before @ [st r]) @ after)" by simp
    from Cons.IH [OF this rest] show ?thesis .
  next
    case False
    with Cons.prems(2) have rest: "update_rows wh st chk (before @ [r]) after = Inr rows" by simp
    from Cons.prems(1) have "unique_key key ((before @ [r]) @ after)" by simp
    from Cons.IH [OF this rest] show ?thesis .
  qed
qed

lemma update_rows_all:
  assumes chk: "\<And>r others. chk r others = None \<Longrightarrow> P r"
  shows "\<forall>x \<in> set before \<union> set after. P x \<Longrightarrow> update_rows wh st chk before after = Inr rows \<Longrightarrow>
         \<forall>x \<in> set rows. P x"
proof (induction after arbitrary: before)
  case Nil
  then show ?case by simp
next
  case (Cons r after)
  show ?case
  proof (cases "wh r")
    case True
    with Cons.prems(2) obtain
      ok: "chk (st r) (before @ after) = None" and
      rest: "update_rows wh st chk (before @ [st r]) after = Inr rows"
      by (auto split: option.splits)
    from chk [OF ok] Cons.prems(1) have "\<forall>x \<in> set (before @ [st r]) \<union> set after. P x" by simp
    from Cons.IH [OF this rest] show ?thesis .
  next
    case False
    with Cons.prems(2) have rest: "update_rows wh st chk (before @ [r]) after = Inr rows" by simp
    from Cons.prems(1) have "\<forall>x \<in> set (before @ [r]) \<union> set after. P x" by simp
    from Cons.IH [OF this rest] show ?thesis .
  qed
qed

lemma referential_filter:
  "referential action name fk gone rows = Inr rows' \<Longrightarrow> \<exists>P. rows' = filter P rows"
proof (cases action)
  case NO_ACTION
  assume "referential action name fk gone rows = Inr rows'"
  with NO_ACTION have "rows' = rows" by (simp add: referential_def split: if_splits)
  then have "rows' = filter (\<lambda>_. True) rows" by simp
  then show ?thesis by blast
next
  case CASCADE
  assume "referential action name fk gone rows = Inr rows'"
  with CASCADE show ?thesis by (auto simp add: referential_def)
qed

subsection \<open>How a statement changes a table\<close>

lemma filter_True_id: "rows = filter (\<lambda>_. True) rows"
  by simp

lemma execute_cart_cases:
  assumes "execute d s = Inr d'"
  shows "(\<exists>r. cart d' = cart d @ [r] \<and> cart_constraints r (cart d) = None)
       \<or> (\<exists>wh st. update_rows wh st cart_constraints [] (cart d) = Inr (cart d'))
       \<or> (\<exists>P. cart d' = filter P (cart d))"
proof (cases s)
  case (INSERT_INTO_catalog_users gen now v)
  with assms have "cart d' = cart d"
    by (auto simp add: insert_catalog_users_def split: option.splits)
  then show ?thesis using filter_True_id by metis
next
  case (INSERT_INTO_catalog_parts gen now v)
  with assms have "cart d' = cart d"
    by (auto simp add: insert_catalog_parts_def split: option.splits)
  then show ?thesis using filter_True_id by metis
next
  case (INSERT_INTO_cart gen now v)
  with assms have "cart d' = cart d @ [cart_new gen now v]
      \<and> cart_constraints (cart_new gen now v) (cart d) = None"
    by (auto simp add: insert_cart_def split: option.splits)
  then show ?thesis by blast
next
  case (INSERT_INTO_verification_codes gen now v)
  with assms have "cart d' = cart d"
    by (auto simp add: insert_verification_codes_def split: option.splits)
  then show ?thesis using filter_True_id by metis
next
  case (UPDATE_catalog_users wh st)
  with assms have "\<exists>gone. referential cart_user_id_fkey_on_update ''cart_user_id_fkey'' cart_user_id gone (cart d)
      = Inr (cart d')"
    by (auto simp add: update_catalog_users_def split: sum.splits)
  then show ?thesis using referential_filter by blast
next
  case (UPDATE_catalog_parts wh st)
  with assms have "\<exists>gone. referential cart_part_id_fkey_on_update ''cart_part_id_fkey'' cart_part_id gone (cart d)
      = Inr (cart d')"
    by (auto simp add: update_catalog_parts_def split: sum.splits)
  then show ?thesis using referential_filter by blast
next
  case (UPDATE_cart wh st)
  with assms have "update_rows wh st cart_constraints [] (cart d) = Inr (cart d')"
    by (auto simp add: update_cart_def split: sum.splits option.splits)
  then show ?thesis by blast
next
  case (UPDATE_verification_codes wh st)
  with assms have "cart d' = cart d"
    by (auto simp add: update_verification_codes_def split: sum.splits)
  then show ?thesis using filter_True_id by metis
next
  case (DELETE_FROM_catalog_users wh)
  with assms have "\<exists>gone. referential cart_user_id_fkey_on_delete ''cart_user_id_fkey'' cart_user_id gone (cart d)
      = Inr (cart d')"
    by (auto simp add: delete_catalog_users_def split: sum.splits)
  then show ?thesis using referential_filter by blast
next
  case (DELETE_FROM_catalog_parts wh)
  with assms have "\<exists>gone. referential cart_part_id_fkey_on_delete ''cart_part_id_fkey'' cart_part_id gone (cart d)
      = Inr (cart d')"
    by (auto simp add: delete_catalog_parts_def split: sum.splits)
  then show ?thesis using referential_filter by blast
next
  case (DELETE_FROM_cart wh)
  with assms have "cart d' = filter (\<lambda>r. \<not> wh r) (cart d)"
    by (auto simp add: delete_cart_def)
  then show ?thesis by blast
next
  case (DELETE_FROM_verification_codes wh)
  with assms have "cart d' = cart d"
    by (auto simp add: delete_verification_codes_def)
  then show ?thesis using filter_True_id by metis
qed

lemma execute_catalog_users_cases:
  assumes "execute d s = Inr d'"
  shows "(\<exists>r. catalog_users d' = catalog_users d @ [r]
              \<and> catalog_users_constraints r (catalog_users d) = None)
       \<or> (\<exists>wh st. update_rows wh st catalog_users_constraints [] (catalog_users d)
                     = Inr (catalog_users d'))
       \<or> (\<exists>P. catalog_users d' = filter P (catalog_users d))"
proof (cases s)
  case (INSERT_INTO_catalog_users gen now v)
  with assms have "catalog_users d' = catalog_users d @ [catalog_users_new gen now v]
      \<and> catalog_users_constraints (catalog_users_new gen now v) (catalog_users d) = None"
    by (auto simp add: insert_catalog_users_def split: option.splits)
  then show ?thesis by blast
next
  case (INSERT_INTO_catalog_parts gen now v)
  with assms have "catalog_users d' = catalog_users d"
    by (auto simp add: insert_catalog_parts_def split: option.splits)
  then show ?thesis using filter_True_id by metis
next
  case (INSERT_INTO_cart gen now v)
  with assms have "catalog_users d' = catalog_users d"
    by (auto simp add: insert_cart_def split: option.splits)
  then show ?thesis using filter_True_id by metis
next
  case (INSERT_INTO_verification_codes gen now v)
  with assms have "catalog_users d' = catalog_users d"
    by (auto simp add: insert_verification_codes_def split: option.splits)
  then show ?thesis using filter_True_id by metis
next
  case (UPDATE_catalog_users wh st)
  with assms have
    "update_rows wh st catalog_users_constraints [] (catalog_users d) = Inr (catalog_users d')"
    by (auto simp add: update_catalog_users_def split: sum.splits)
  then show ?thesis by blast
next
  case (UPDATE_catalog_parts wh st)
  with assms have "catalog_users d' = catalog_users d"
    by (auto simp add: update_catalog_parts_def split: sum.splits)
  then show ?thesis using filter_True_id by metis
next
  case (UPDATE_cart wh st)
  with assms have "catalog_users d' = catalog_users d"
    by (auto simp add: update_cart_def split: sum.splits option.splits)
  then show ?thesis using filter_True_id by metis
next
  case (UPDATE_verification_codes wh st)
  with assms have "catalog_users d' = catalog_users d"
    by (auto simp add: update_verification_codes_def split: sum.splits)
  then show ?thesis using filter_True_id by metis
next
  case (DELETE_FROM_catalog_users wh)
  with assms have "catalog_users d' = filter (\<lambda>r. \<not> wh r) (catalog_users d)"
    by (auto simp add: delete_catalog_users_def split: sum.splits)
  then show ?thesis by blast
next
  case (DELETE_FROM_catalog_parts wh)
  with assms have "catalog_users d' = catalog_users d"
    by (auto simp add: delete_catalog_parts_def split: sum.splits)
  then show ?thesis using filter_True_id by metis
next
  case (DELETE_FROM_cart wh)
  with assms have "catalog_users d' = catalog_users d"
    by (auto simp add: delete_cart_def)
  then show ?thesis using filter_True_id by metis
next
  case (DELETE_FROM_verification_codes wh)
  with assms have "catalog_users d' = catalog_users d"
    by (auto simp add: delete_verification_codes_def)
  then show ?thesis using filter_True_id by metis
qed

subsection \<open>Invariants of the reachable states\<close>

lemma run_invariant:
  assumes step: "\<And>d s d'. P d \<Longrightarrow> execute d s = Inr d' \<Longrightarrow> P d'"
  shows "P d \<Longrightarrow> P (run d ss)"
proof (induction ss arbitrary: d)
  case Nil
  then show ?case by simp
next
  case (Cons s ss)
  show ?case
  proof (cases "execute d s")
    case (Inl e)
    with Cons show ?thesis by simp
  next
    case (Inr d')
    with Cons.prems have "P d'" by (rule step)
    with Cons.IH Inr show ?thesis by simp
  qed
qed

lemma unique_key_append1:
  "unique_key key rows \<Longrightarrow> \<not> unique_conflict key r rows \<Longrightarrow> unique_key key (rows @ [r])"
  using unique_key_insert [of key rows "[]" r] by simp

lemma cart_constraints_pair:
  "cart_constraints r others = None \<Longrightarrow> \<not> unique_conflict cart_user_id_part_id_key r others"
  by (simp add: cart_constraints_def split: if_splits)

lemma cart_constraints_quantity:
  "cart_constraints r others = None \<Longrightarrow> cart_quantity_check (cart_quantity r)"
  by (simp add: cart_constraints_def split: if_splits)

lemma catalog_users_constraints_status:
  "catalog_users_constraints r others = None \<Longrightarrow>
   users_status r \<in> {Some ''pending'', Some ''approved'', Some ''rejected''}"
  by (auto simp add: catalog_users_constraints_def catalog_users_status_check_def
      split: if_splits)

lemma execute_cart_unique_key:
  assumes "unique_key cart_user_id_part_id_key (cart d)" and "execute d s = Inr d'"
  shows "unique_key cart_user_id_part_id_key (cart d')"
proof -
  from execute_cart_cases [OF assms(2)] consider
    r where "cart d' = cart d @ [r]" "cart_constraints r (cart d) = None"
  | wh st where "update_rows wh st cart_constraints [] (cart d) = Inr (cart d')"
  | P where "cart d' = filter P (cart d)"
    by blast
  then show ?thesis
  proof cases
    case 1
    from assms(1) cart_constraints_pair [OF 1(2)]
    have "unique_key cart_user_id_part_id_key (cart d @ [r])"
      by (rule unique_key_append1)
    with 1(1) show ?thesis by simp
  next
    case 2
    from assms(1) have "unique_key cart_user_id_part_id_key ([] @ cart d)" by simp
    from cart_constraints_pair this 2 show ?thesis by (rule update_rows_unique_key)
  next
    case 3
    with assms(1) show ?thesis by (simp add: unique_key_filter)
  qed
qed

lemma execute_cart_all:
  assumes chk: "\<And>r others. cart_constraints r others = None \<Longrightarrow> P r"
    and "\<forall>r \<in> set (cart d). P r" and "execute d s = Inr d'"
  shows "\<forall>r \<in> set (cart d'). P r"
proof -
  from execute_cart_cases [OF assms(3)] consider
    r where "cart d' = cart d @ [r]" "cart_constraints r (cart d) = None"
  | wh st where "update_rows wh st cart_constraints [] (cart d) = Inr (cart d')"
  | Q where "cart d' = filter Q (cart d)"
    by blast
  then show ?thesis
  proof cases
    case 1
    with assms(2) chk show ?thesis by auto
  next
    case 2
    from assms(2) have "\<forall>r \<in> set [] \<union> set (cart d). P r" by simp
    from chk this 2 show ?thesis by (rule update_rows_all)
  next
    case 3
    with assms(2) show ?thesis by simp
  qed
qed

lemma execute_catalog_users_all:
  assumes chk: "\<And>r others. catalog_users_constraints r others = None \<Longrightarrow> P r"
    and "\<forall>r \<in> set (catalog_users d). P r" and "execute d s = Inr d'"
  shows "\<forall>r \<in> set (catalog_users d'). P r"
proof -
  from execute_catalog_users_cases [OF assms(3)] consider
    r where "catalog_users d' = catalog_users d @ [r]"
      "catalog_users_constraints r (catalog_users d) = None"
  | wh st where "update_rows wh st catalog_users_constraints [] (catalog_users d)
      = Inr (catalog_users d')"
  | Q where "catalog_users d' = filter Q (catalog_users d)"
    by blast
  then show ?thesis
  proof cases
    case 1
    with assms(2) chk show ?thesis by auto
  next
    case 2
    from assms(2) have "\<forall>r \<in> set [] \<union> set (catalog_users d). P r" by simp
    from chk this 2 show ?thesis by (rule update_rows_all)
  next
    case 3
    with assms(2) show ?thesis by simp
  qed
qed

lemma reachable_cart_unique_key: "unique_key cart_user_id_part_id_key (cart (run empty_db ss))"
proof -
  let ?P = "\<lambda>d. unique_key cart_user_id_part_id_key (cart d)"
  have base: "?P empty_db"
    by (simp add: empty_db_def unique_key_Nil)
  have step: "\<And>d s d'. ?P d \<Longrightarrow> execute d s = Inr d' \<Longrightarrow> ?P d'"
    by (rule execute_cart_unique_key)
  from run_invariant [of ?P, OF step base] show ?thesis .
qed

lemma reachable_cart_quantity:
  "\<forall>r \<in> set (cart (run empty_db ss)). cart_quantity_check (cart_quantity r)"
proof -
  let ?P = "\<lambda>d. \<forall>r \<in> set (cart d). cart_quantity_check (cart_quantity r)"
  have base: "?P empty_db"
    by (simp add: empty_db_def)
  have step: "\<And>d s d'. ?P d \<Longrightarrow> execute d s = Inr d' \<Longrightarrow> ?P d'"
    using cart_constraints_quantity by (rule execute_cart_all)
  from run_invariant [of ?P, OF step base] show ?thesis .
qed

lemma reachable_users_status:
  "\<forall>r \<in> set (catalog_users (run empty_db ss)).
     users_status r \<in> {Some ''pending'', Some ''approved'', Some ''rejected''}"
proof -
  let ?P = "\<lambda>d. \<forall>r \<in> set (catalog_users d).
     users_status r \<in> {Some ''pending'', Some ''approved'', Some ''rejected''}"
  have base: "?P empty_db"
    by (simp add: empty_db_def)
  have step: "\<And>d s d'. ?P d \<Longrightarrow> execute d s = Inr d' \<Longrightarrow> ?P d'"
    using catalog_users_constraints_status by (rule execute_catalog_users_all)
  from run_invariant [of ?P, OF step base] show ?thesis .
qed

section \<open>Properties of the schema\<close>

lemma points_at_iff:
  "points_at fk (map key (filter wh rows))
   = (\<exists>r \<in> set rows. wh r \<and> fk \<noteq> None \<and> fk = key r)"
  by (cases fk) (auto simp add: points_at_def)

lemma unique_conflict_member:
  "x \<in> set others \<Longrightarrow> key x = Some k \<Longrightarrow> key r = Some k \<Longrightarrow> unique_conflict key r others"
  by (auto simp add: unique_conflict_def)

lemma cart_key_iff:
  "cart_user_id_part_id_key r = Some (u, p) \<longleftrightarrow> cart_user_id r = Some u \<and> cart_part_id r = Some p"
  by (auto simp add: cart_user_id_part_id_key_def split: option.splits)

lemma insert_cart_rejected: "insert_cart d gen now v = Inl e \<Longrightarrow> run d [INSERT_INTO_cart gen now v] = d"
  by simp

lemma unique_conflict_map:
  "unique_conflict key r others = (key r \<noteq> None \<and> key r \<in> set (map key others))"
proof (cases "key r")
  case None
  then show ?thesis by (simp add: unique_conflict_def)
next
  case (Some k)
  have "(\<exists>x \<in> set others. key x = Some k) = (Some k \<in> key ` set others)"
    by force
  with Some show ?thesis by (simp add: unique_conflict_def)
qed

lemma catalog_parts_constraints_qty:
  assumes "- 2147483648 \<le> q \<and> q \<le> 2147483647"
    and "map parts_id o1 = map parts_id o2"
  shows "catalog_parts_constraints (r\<lparr>parts_qty := Some q\<rparr>) o1
       = catalog_parts_constraints (r\<lparr>parts_qty := Some 0\<rparr>) o2"
  using assms
  by (simp add: catalog_parts_constraints_def integer_in_range_def unique_conflict_map)

lemma update_rows_qty:
  assumes range: "- 2147483648 \<le> q \<and> q \<le> 2147483647"
  shows "map parts_id b1 = map parts_id b2 \<Longrightarrow>
    rel_sum (=) (\<lambda>x y. map parts_id x = map parts_id y)
      (update_rows wh (\<lambda>r. (st r)\<lparr>parts_qty := Some q\<rparr>) catalog_parts_constraints b1 after)
      (update_rows wh (\<lambda>r. (st r)\<lparr>parts_qty := Some 0\<rparr>) catalog_parts_constraints b2 after)"
proof (induction after arbitrary: b1 b2)
  case Nil
  then show ?case by simp
next
  case (Cons r after)
  show ?case
  proof (cases "wh r")
    case True
    from Cons.prems have ids: "map parts_id (b1 @ after) = map parts_id (b2 @ after)" by simp
    note eq = catalog_parts_constraints_qty [OF range ids, of "st r"]
    show ?thesis
    proof (cases "catalog_parts_constraints ((st r)\<lparr>parts_qty := Some 0\<rparr>) (b2 @ after)")
      case None
      from Cons.prems
      have "map parts_id (b1 @ [(st r)\<lparr>parts_qty := Some q\<rparr>])
          = map parts_id (b2 @ [(st r)\<lparr>parts_qty := Some 0\<rparr>])"
        by simp
      from Cons.IH [OF this] True None eq show ?thesis by simp
    next
      case (Some e)
      with True eq show ?thesis by simp
    qed
  next
    case False
    from Cons.prems have "map parts_id (b1 @ [r]) = map parts_id (b2 @ [r])" by simp
    from Cons.IH [OF this] False show ?thesis by simp
  qed
qed

lemma update_catalog_parts_qty:
  assumes range: "- 2147483648 \<le> q \<and> q \<le> 2147483647"
  shows "isl (update_catalog_parts d wh (\<lambda>r. (st r)\<lparr>parts_qty := Some q\<rparr>))
       = isl (update_catalog_parts d wh (\<lambda>r. (st r)\<lparr>parts_qty := Some 0\<rparr>))"
proof -
  let ?U1 = "update_rows wh (\<lambda>r. (st r)\<lparr>parts_qty := Some q\<rparr>) catalog_parts_constraints []
                 (catalog_parts d)"
  let ?U2 = "update_rows wh (\<lambda>r. (st r)\<lparr>parts_qty := Some 0\<rparr>) catalog_parts_constraints []
                 (catalog_parts d)"
  have "map parts_id ([] :: catalog_parts_row list) = map parts_id []" by simp
  from update_rows_qty [OF range this, of wh st "catalog_parts d"]
  have rel: "rel_sum (=) (\<lambda>x y. map parts_id x = map parts_id y) ?U1 ?U2" .
  show ?thesis
  proof (cases ?U1)
    case (Inl e)
    with rel obtain e' where "?U2 = Inl e'" by (cases ?U2) auto
    with Inl show ?thesis by (simp add: update_catalog_parts_def)
  next
    case (Inr x)
    with rel obtain y where y: "?U2 = Inr y" "map parts_id x = map parts_id y"
      by (cases ?U2) auto
    with Inr show ?thesis by (simp add: update_catalog_parts_def split: sum.splits)
  qed
qed

lemma insert_catalog_parts_qty:
  assumes range: "- 2147483648 \<le> q \<and> q \<le> 2147483647"
  shows "isl (insert_catalog_parts d gen now (v\<lparr>new_parts_qty := Value q\<rparr>))
       = isl (insert_catalog_parts d gen now (v\<lparr>new_parts_qty := Value 0\<rparr>))"
proof -
  have a: "catalog_parts_new gen now (v\<lparr>new_parts_qty := Value q\<rparr>)
      = (catalog_parts_new gen now v)\<lparr>parts_qty := Some q\<rparr>"
    by (simp add: catalog_parts_new_def)
  have b: "catalog_parts_new gen now (v\<lparr>new_parts_qty := Value 0\<rparr>)
      = (catalog_parts_new gen now v)\<lparr>parts_qty := Some 0\<rparr>"
    by (simp add: catalog_parts_new_def)
  from catalog_parts_constraints_qty [OF range refl, of "catalog_parts_new gen now v" "catalog_parts d"]
  show ?thesis
    unfolding insert_catalog_parts_def a b by (simp split: option.splits)
qed

lemma run_example_history: "run empty_db example_history = example_db"
  by (simp add: example_history_def example_db_def empty_db_def
      insert_catalog_users_def insert_catalog_parts_def insert_cart_def
      catalog_users_new_def catalog_parts_new_def cart_new_def
      catalog_users_default_values_def catalog_parts_default_values_def cart_default_values_def
      catalog_users_constraints_def catalog_parts_constraints_def cart_constraints_def
      catalog_users_status_check_def cart_quantity_check_def integer_in_range_def
      unique_conflict_def cart_user_id_part_id_key_def cart_foreign_keys_def references_def)

text \<open>
  Claim C3. In every database state, \<^verbatim>\<open>DELETE FROM catalog_users WHERE ..\<close> succeeds,
  removes the users that satisfy the condition and, by the cascade, exactly the
  \<^verbatim>\<open>cart\<close> rows whose \<^verbatim>\<open>user_id\<close> references one of the removed users; the rows of
  \<^verbatim>\<open>catalog_parts\<close> and \<^verbatim>\<open>verification_codes\<close> and the other rows of \<^verbatim>\<open>cart\<close>
  stay as they are. Deleting parts likewise removes exactly the \<^verbatim>\<open>cart\<close> rows whose
  \<^verbatim>\<open>part_id\<close> references a removed part and changes no other table.
\<close>

theorem delete_cascades_to_cart_only:
  "delete_catalog_users d wh =
     Inr (d\<lparr>catalog_users := filter (\<lambda>r. \<not> wh r) (catalog_users d),
            cart := filter (\<lambda>c. \<not> (\<exists>r \<in> set (catalog_users d).
                      wh r \<and> cart_user_id c \<noteq> None \<and> cart_user_id c = users_id r)) (cart d)\<rparr>)
   \<and> delete_catalog_parts d wh' =
     Inr (d\<lparr>catalog_parts := filter (\<lambda>r. \<not> wh' r) (catalog_parts d),
            cart := filter (\<lambda>c. \<not> (\<exists>r \<in> set (catalog_parts d).
                      wh' r \<and> cart_part_id c \<noteq> None \<and> cart_part_id c = parts_id r)) (cart d)\<rparr>)"
  by (simp add: delete_catalog_users_def delete_catalog_parts_def referential_def
      cart_user_id_fkey_on_delete_def cart_part_id_fkey_on_delete_def points_at_iff)

theorem delete_cascades_to_cart_only_witness:
  "map_sum id (\<lambda>d'. (map users_id (catalog_users d'), map cart_id (cart d'),
                      catalog_parts d' = catalog_parts example_db,
                      verification_codes d' = verification_codes example_db))
     (delete_catalog_users example_db (\<lambda>r. users_id r = Some 1))
   = Inr ([Some 2], [Some 21, Some 22], True, True)
   \<and> map_sum id (\<lambda>d'. (map parts_id (catalog_parts d'), map cart_id (cart d'),
                      catalog_users d' = catalog_users example_db,
                      verification_codes d' = verification_codes example_db))
     (delete_catalog_parts example_db (\<lambda>r. parts_id r = Some 10))
   = Inr ([Some 11], [Some 23], True, True)"
proof -
  note t = delete_cascades_to_cart_only
    [where d = example_db and wh = "\<lambda>r. users_id r = Some 1"
       and wh' = "\<lambda>r. parts_id r = Some 10"]
  from t have u: "delete_catalog_users example_db (\<lambda>r. users_id r = Some 1) =
     Inr (example_db\<lparr>catalog_users := filter (\<lambda>r. \<not> users_id r = Some 1) (catalog_users example_db),
            cart := filter (\<lambda>c. \<not> (\<exists>r \<in> set (catalog_users example_db).
                      users_id r = Some 1 \<and> cart_user_id c \<noteq> None \<and> cart_user_id c = users_id r))
                      (cart example_db)\<rparr>)"
    by (rule conjunct1)
  from t have p: "delete_catalog_parts example_db (\<lambda>r. parts_id r = Some 10) =
     Inr (example_db\<lparr>catalog_parts := filter (\<lambda>r. \<not> parts_id r = Some 10) (catalog_parts example_db),
            cart := filter (\<lambda>c. \<not> (\<exists>r \<in> set (catalog_parts example_db).
                      parts_id r = Some 10 \<and> cart_part_id c \<noteq> None \<and> cart_part_id c = parts_id r))
                      (cart example_db)\<rparr>)"
    by (rule conjunct2)
  show ?thesis
    unfolding u p by (simp add: example_db_def)
qed

text \<open>
  Claim C4. In every database state that has a \<^verbatim>\<open>cart\<close> row with user reference
  \<open>u\<close> and part reference \<open>p\<close>, an \<^verbatim>\<open>INSERT\<close> of another \<^verbatim>\<open>cart\<close> row with the
  same two references is rejected and leaves the state as it was; when the new row passes
  the checks made before that index, the error is the violation of
  \<^verbatim>\<open>UNIQUE(user_id, part_id)\<close>. Hence every reachable state has at most one
  \<^verbatim>\<open>cart\<close> row for each pair of a user and a part.
\<close>

theorem cart_user_part_unique:
  "(r \<in> set (cart d) \<and> cart_user_id r = Some u \<and> cart_part_id r = Some p
      \<and> new_cart_user_id v = Value u \<and> new_cart_part_id v = Value p \<longrightarrow>
        (\<exists>e. insert_cart d gen now v = Inl e)
      \<and> run d [INSERT_INTO_cart gen now v] = d
      \<and> (integer_in_range (cart_quantity (cart_new gen now v))
           \<and> cart_id (cart_new gen now v) \<noteq> None
           \<and> cart_quantity_check (cart_quantity (cart_new gen now v))
           \<and> \<not> unique_conflict cart_id (cart_new gen now v) (cart d) \<longrightarrow>
         insert_cart d gen now v = Inl (unique_violation ''cart_user_id_part_id_key'')))
   \<and> length (filter (\<lambda>r. cart_user_id r = Some u \<and> cart_part_id r = Some p)
               (cart (run empty_db ss))) \<le> 1"
proof (intro conjI impI)
  assume h: "r \<in> set (cart d) \<and> cart_user_id r = Some u \<and> cart_part_id r = Some p
      \<and> new_cart_user_id v = Value u \<and> new_cart_part_id v = Value p"
  then have new: "cart_user_id_part_id_key (cart_new gen now v) = Some (u, p)"
    by (simp add: cart_key_iff cart_new_def)
  from h have old: "cart_user_id_part_id_key r = Some (u, p)"
    by (simp add: cart_key_iff)
  from h old new have conflict:
    "unique_conflict cart_user_id_part_id_key (cart_new gen now v) (cart d)"
    using unique_conflict_member by fastforce
  then have "cart_constraints (cart_new gen now v) (cart d) \<noteq> None"
    by (simp add: cart_constraints_def)
  then show rej: "\<exists>e. insert_cart d gen now v = Inl e"
    by (auto simp add: insert_cart_def)
  then show "run d [INSERT_INTO_cart gen now v] = d"
    using insert_cart_rejected by blast
  assume "integer_in_range (cart_quantity (cart_new gen now v))
           \<and> cart_id (cart_new gen now v) \<noteq> None
           \<and> cart_quantity_check (cart_quantity (cart_new gen now v))
           \<and> \<not> unique_conflict cart_id (cart_new gen now v) (cart d)"
  with conflict have "cart_constraints (cart_new gen now v) (cart d)
      = Some (unique_violation ''cart_user_id_part_id_key'')"
    by (simp add: cart_constraints_def)
  then show "insert_cart d gen now v = Inl (unique_violation ''cart_user_id_part_id_key'')"
    by (simp add: insert_cart_def)
next
  from reachable_cart_unique_key [of ss]
  have "length (filter (\<lambda>r. cart_user_id_part_id_key r = Some (u, p)) (cart (run empty_db ss))) \<le> 1"
    by (simp add: unique_key_def)
  then show "length (filter (\<lambda>r. cart_user_id r = Some u \<and> cart_part_id r = Some p)
               (cart (run empty_db ss))) \<le> 1"
    by (simp add: cart_key_iff)
qed

theorem cart_user_part_unique_witness:
  "\<lparr>cart_id = Some 20, cart_user_id = Some 1, cart_part_id = Some 10,
     cart_quantity = Some 1, cart_created_at = Some 100\<rparr> \<in> set (cart example_db)
   \<and> insert_cart example_db 30 200
        (cart_default_values\<lparr>new_cart_user_id := Value 1, new_cart_part_id := Value 10\<rparr>)
      = Inl (unique_violation ''cart_user_id_part_id_key'')
   \<and> run example_db [INSERT_INTO_cart 30 200
        (cart_default_values\<lparr>new_cart_user_id := Value 1, new_cart_part_id := Value 10\<rparr>)]
      = example_db
   \<and> length (filter (\<lambda>r. cart_user_id r = Some 1 \<and> cart_part_id r = Some 10)
        (cart (run empty_db example_history))) = 1"
proof -
  let ?r = "\<lparr>cart_id = Some 20, cart_user_id = Some 1, cart_part_id = Some 10,
     cart_quantity = Some 1, cart_created_at = Some (100 :: int)\<rparr>"
  let ?v = "cart_default_values\<lparr>new_cart_user_id := Value 1, new_cart_part_id := Value 10\<rparr>"
  have h1: "?r \<in> set (cart example_db) \<and> cart_user_id ?r = Some 1 \<and> cart_part_id ?r = Some 10
      \<and> new_cart_user_id ?v = Value 1 \<and> new_cart_part_id ?v = Value 10"
    by (simp add: example_db_def)
  have h2: "integer_in_range (cart_quantity (cart_new 30 200 ?v))
           \<and> cart_id (cart_new 30 200 ?v) \<noteq> None
           \<and> cart_quantity_check (cart_quantity (cart_new 30 200 ?v))
           \<and> \<not> unique_conflict cart_id (cart_new 30 200 ?v) (cart example_db)"
    by (simp add: cart_new_def cart_default_values_def integer_in_range_def
        cart_quantity_check_def unique_conflict_def example_db_def)
  have n: "length (filter (\<lambda>r. cart_user_id r = Some 1 \<and> cart_part_id r = Some 10)
        (cart (run empty_db example_history))) = 1"
    by (simp add: run_example_history example_db_def)
  from cart_user_part_unique [where r = ?r and d = example_db and u = 1 and p = 10 and v = ?v
      and gen = 30 and now = 200 and ss = example_history] h1 h2 n
  show ?thesis by blast
qed

text \<open>
  Claim C5, as stated: every \<^verbatim>\<open>cart\<close> row of every reachable state has a quantity
  greater than 0. It fails: \<^verbatim>\<open>quantity\<close> is nullable and the \<^verbatim>\<open>CHECK\<close> passes on
  \<^verbatim>\<open>NULL\<close>, so an \<^verbatim>\<open>INSERT\<close> with \<^verbatim>\<open>quantity\<close> \<^verbatim>\<open>NULL\<close> is accepted and the
  row it adds has no quantity.
\<close>

theorem cart_quantity_null_counterexample:
  "map cart_quantity
     (cart (run empty_db [INSERT_INTO_cart 20 100 (cart_default_values\<lparr>new_cart_quantity := Null\<rparr>)]))
   = [None]"
  by (simp add: empty_db_def insert_cart_def cart_new_def cart_default_values_def
      cart_constraints_def cart_quantity_check_def integer_in_range_def
      unique_conflict_def cart_user_id_part_id_key_def cart_foreign_keys_def references_def)

text \<open>
  Claim C5, amended. An \<^verbatim>\<open>INSERT\<close> of a \<^verbatim>\<open>cart\<close> row whose quantity is a value
  less than or equal to 0 is rejected and leaves the state as it was; when the value is
  within the \<^verbatim>\<open>INTEGER\<close> range and the row has an \<^verbatim>\<open>id\<close>, the error is the
  violation of the \<^verbatim>\<open>CHECK\<close> constraint. Hence every \<^verbatim>\<open>cart\<close> row of every
  reachable state has a quantity that is \<^verbatim>\<open>NULL\<close> or greater than 0.
\<close>

theorem cart_quantity_positive_or_null:
  "(new_cart_quantity v = Value q \<and> q \<le> 0 \<longrightarrow>
        (\<exists>e. insert_cart d gen now v = Inl e)
      \<and> run d [INSERT_INTO_cart gen now v] = d
      \<and> (- 2147483648 \<le> q \<and> cart_id (cart_new gen now v) \<noteq> None \<longrightarrow>
         insert_cart d gen now v = Inl (check_violation ''cart_quantity_check'')))
   \<and> (\<forall>r \<in> set (cart (run empty_db ss)).
         cart_quantity r = None \<or> (\<exists>n. cart_quantity r = Some n \<and> 0 < n))"
proof (intro conjI impI)
  assume h: "new_cart_quantity v = Value q \<and> q \<le> 0"
  then have q: "cart_quantity (cart_new gen now v) = Some q"
    by (simp add: cart_new_def)
  with h have "cart_constraints (cart_new gen now v) (cart d) \<noteq> None"
    by (simp add: cart_constraints_def cart_quantity_check_def)
  then show "\<exists>e. insert_cart d gen now v = Inl e"
    by (auto simp add: insert_cart_def)
  then show "run d [INSERT_INTO_cart gen now v] = d"
    using insert_cart_rejected by blast
  assume "- 2147483648 \<le> q \<and> cart_id (cart_new gen now v) \<noteq> None"
  with h q have "cart_constraints (cart_new gen now v) (cart d)
      = Some (check_violation ''cart_quantity_check'')"
    by (simp add: cart_constraints_def cart_quantity_check_def integer_in_range_def)
  then show "insert_cart d gen now v = Inl (check_violation ''cart_quantity_check'')"
    by (simp add: insert_cart_def)
next
  from reachable_cart_quantity [of ss]
  show "\<forall>r \<in> set (cart (run empty_db ss)).
         cart_quantity r = None \<or> (\<exists>n. cart_quantity r = Some n \<and> 0 < n)"
    by (auto simp add: cart_quantity_check_def split: option.splits)
qed

theorem cart_quantity_positive_or_null_witness:
  "insert_cart example_db 30 200
     (cart_default_values\<lparr>new_cart_user_id := Value 2, new_cart_part_id := Value 11,
        new_cart_quantity := Value 0\<rparr>)
   = Inl (check_violation ''cart_quantity_check'')
   \<and> run example_db [INSERT_INTO_cart 30 200
     (cart_default_values\<lparr>new_cart_user_id := Value 2, new_cart_part_id := Value 11,
        new_cart_quantity := Value 0\<rparr>)] = example_db
   \<and> map cart_quantity (cart (run empty_db example_history)) = [Some 1, Some 1, Some 1, Some 1]"
proof -
  let ?v = "cart_default_values\<lparr>new_cart_user_id := Value 2, new_cart_part_id := Value 11,
        new_cart_quantity := Value 0\<rparr>"
  have h1: "new_cart_quantity ?v = Value 0 \<and> (0 :: int) \<le> 0"
    by simp
  have h2: "- 2147483648 \<le> (0 :: int) \<and> cart_id (cart_new 30 200 ?v) \<noteq> None"
    by (simp add: cart_new_def cart_default_values_def)
  have n: "map cart_quantity (cart (run empty_db example_history))
      = [Some 1, Some 1, Some 1, Some 1]"
    by (simp add: run_example_history example_db_def)
  from cart_quantity_positive_or_null [where v = ?v and q = 0 and d = example_db and gen = 30
      and now = 200 and ss = example_history] h1 h2 n
  show ?thesis by blast
qed

text \<open>
  Claim C6. An \<^verbatim>\<open>INSERT\<close> of a \<^verbatim>\<open>catalog_users\<close> row that gives a status other than
  \<^verbatim>\<open>pending\<close>, \<^verbatim>\<open>approved\<close> or \<^verbatim>\<open>rejected\<close> is rejected and leaves the state as it
  was; an \<^verbatim>\<open>INSERT\<close> that omits the status builds a row with status \<^verbatim>\<open>pending\<close>,
  which is the row added when the statement succeeds. Hence the status of every
  \<^verbatim>\<open>catalog_users\<close> row of every reachable state is one of the three values.
\<close>

theorem users_status_enum:
  "(new_users_status v \<notin> {Omitted, Value ''pending'', Value ''approved'', Value ''rejected''}
      \<longrightarrow> (\<exists>e. insert_catalog_users d gen now v = Inl e)
        \<and> run d [INSERT_INTO_catalog_users gen now v] = d)
   \<and> (new_users_status v = Omitted \<longrightarrow>
        users_status (catalog_users_new gen now v) = Some ''pending''
        \<and> (\<forall>d'. insert_catalog_users d gen now v = Inr d' \<longrightarrow>
              catalog_users d' = catalog_users d @ [catalog_users_new gen now v]))
   \<and> (\<forall>r \<in> set (catalog_users (run empty_db ss)).
         users_status r \<in> {Some ''pending'', Some ''approved'', Some ''rejected''})"
proof (intro conjI impI)
  assume h: "new_users_status v
      \<notin> {Omitted, Value ''pending'', Value ''approved'', Value ''rejected''}"
  have "users_status (catalog_users_new gen now v)
      \<notin> {Some ''pending'', Some ''approved'', Some ''rejected''}"
  proof (cases "new_users_status v")
    case Omitted
    with h show ?thesis by simp
  next
    case Null
    then show ?thesis by (simp add: catalog_users_new_def)
  next
    case (Value s)
    with h show ?thesis by (simp add: catalog_users_new_def)
  qed
  then have "catalog_users_constraints (catalog_users_new gen now v) (catalog_users d) \<noteq> None"
    using catalog_users_constraints_status by blast
  then show rej: "\<exists>e. insert_catalog_users d gen now v = Inl e"
    by (auto simp add: insert_catalog_users_def)
  then show "run d [INSERT_INTO_catalog_users gen now v] = d"
    by auto
next
  assume "new_users_status v = Omitted"
  then show "users_status (catalog_users_new gen now v) = Some ''pending''"
    by (simp add: catalog_users_new_def)
next
  show "\<forall>d'. insert_catalog_users d gen now v = Inr d' \<longrightarrow>
              catalog_users d' = catalog_users d @ [catalog_users_new gen now v]"
    by (auto simp add: insert_catalog_users_def split: option.splits)
next
  show "\<forall>r \<in> set (catalog_users (run empty_db ss)).
         users_status r \<in> {Some ''pending'', Some ''approved'', Some ''rejected''}"
    by (rule reachable_users_status)
qed

theorem users_status_enum_witness:
  "(\<exists>e. insert_catalog_users example_db 3 200
      (catalog_users_default_values\<lparr>new_users_email := Value ''eve@example.com'',
         new_users_password_hash := Value ''z'', new_users_name := Value ''Eve'',
         new_users_status := Value ''banned''\<rparr>) = Inl e)
   \<and> users_status (catalog_users_new 3 200
      (catalog_users_default_values\<lparr>new_users_email := Value ''eve@example.com'',
         new_users_password_hash := Value ''z'', new_users_name := Value ''Eve''\<rparr>))
     = Some ''pending''
   \<and> map users_status (catalog_users (run empty_db example_history))
     = [Some ''pending'', Some ''pending'']"
proof -
  let ?bad = "catalog_users_default_values\<lparr>new_users_email := Value ''eve@example.com'',
         new_users_password_hash := Value ''z'', new_users_name := Value ''Eve'',
         new_users_status := Value ''banned''\<rparr>"
  let ?ok = "catalog_users_default_values\<lparr>new_users_email := Value ''eve@example.com'',
         new_users_password_hash := Value ''z'', new_users_name := Value ''Eve''\<rparr>"
  have h1: "new_users_status ?bad
      \<notin> {Omitted, Value ''pending'', Value ''approved'', Value ''rejected''}"
    by simp
  have h2: "new_users_status ?ok = Omitted"
    by (simp add: catalog_users_default_values_def)
  have n: "map users_status (catalog_users (run empty_db example_history))
     = [Some ''pending'', Some ''pending'']"
    by (simp add: run_example_history example_db_def)
  from users_status_enum [where v = ?bad and d = example_db and gen = 3 and now = 200
      and ss = example_history] h1
  have a: "\<exists>e. insert_catalog_users example_db 3 200 ?bad = Inl e" by blast
  from users_status_enum [where v = ?ok and d = example_db and gen = 3 and now = 200
      and ss = example_history] h2
  have b: "users_status (catalog_users_new 3 200 ?ok) = Some ''pending''" by blast
  from a b n show ?thesis by blast
qed

text \<open>
  Claim C7, as stated: every \<^verbatim>\<open>catalog_parts\<close> row has \<^verbatim>\<open>qty\<close> at least 0 and an
  \<^verbatim>\<open>INSERT\<close> with a negative \<^verbatim>\<open>qty\<close> is rejected. It fails: the column has a
  default and no \<^verbatim>\<open>CHECK\<close>, so an \<^verbatim>\<open>INSERT\<close> with \<^verbatim>\<open>qty\<close> -5 into the empty
  database is accepted and the row is stored with \<^verbatim>\<open>qty\<close> -5.
\<close>

theorem parts_qty_negative_counterexample:
  "map parts_qty (catalog_parts (run empty_db
     [INSERT_INTO_catalog_parts 10 100
        (catalog_parts_default_values\<lparr>new_parts_part_number := Value ''A-1'',
           new_parts_name_en := Value ''Filter'', new_parts_name_ru := Value ''Filtr'',
           new_parts_category := Value ''engine'', new_parts_price := Value 5,
           new_parts_qty := Value (- 5)\<rparr>)]))
   = [Some (- 5)]"
  by (simp add: empty_db_def insert_catalog_parts_def catalog_parts_new_def
      catalog_parts_default_values_def catalog_parts_constraints_def integer_in_range_def
      unique_conflict_def)

text \<open>
  Claim C7, amended. The \<^verbatim>\<open>qty\<close> of a \<^verbatim>\<open>catalog_parts\<close> row is 0 when the
  \<^verbatim>\<open>INSERT\<close> omits it, and no constraint looks at its sign: an \<^verbatim>\<open>INSERT\<close> or an
  \<^verbatim>\<open>UPDATE\<close> that sets \<^verbatim>\<open>qty\<close> to any value of the \<^verbatim>\<open>INTEGER\<close> range, negative
  ones included, is accepted exactly when the same statement setting \<^verbatim>\<open>qty\<close> to 0 is.
\<close>

theorem parts_qty_default_no_sign_check:
  "(new_parts_qty v = Omitted \<longrightarrow> parts_qty (catalog_parts_new gen now v) = Some 0)
   \<and> (- 2147483648 \<le> q \<and> q \<le> 2147483647 \<longrightarrow>
        isl (insert_catalog_parts d gen now (v\<lparr>new_parts_qty := Value q\<rparr>))
          = isl (insert_catalog_parts d gen now (v\<lparr>new_parts_qty := Value 0\<rparr>))
      \<and> isl (update_catalog_parts d wh (\<lambda>r. (st r)\<lparr>parts_qty := Some q\<rparr>))
          = isl (update_catalog_parts d wh (\<lambda>r. (st r)\<lparr>parts_qty := Some 0\<rparr>)))"
proof (intro conjI impI)
  assume "new_parts_qty v = Omitted"
  then show "parts_qty (catalog_parts_new gen now v) = Some 0"
    by (simp add: catalog_parts_new_def)
next
  assume "- 2147483648 \<le> q \<and> q \<le> 2147483647"
  then show "isl (insert_catalog_parts d gen now (v\<lparr>new_parts_qty := Value q\<rparr>))
          = isl (insert_catalog_parts d gen now (v\<lparr>new_parts_qty := Value 0\<rparr>))"
    by (rule insert_catalog_parts_qty)
next
  assume "- 2147483648 \<le> q \<and> q \<le> 2147483647"
  then show "isl (update_catalog_parts d wh (\<lambda>r. (st r)\<lparr>parts_qty := Some q\<rparr>))
          = isl (update_catalog_parts d wh (\<lambda>r. (st r)\<lparr>parts_qty := Some 0\<rparr>))"
    by (rule update_catalog_parts_qty)
qed

theorem parts_qty_default_no_sign_check_witness:
  "parts_qty (catalog_parts_new 12 200
      (catalog_parts_default_values\<lparr>new_parts_part_number := Value ''C-3'',
         new_parts_name_en := Value ''Pump'', new_parts_name_ru := Value ''Nasos'',
         new_parts_category := Value ''engine'', new_parts_price := Value 9\<rparr>)) = Some 0
   \<and> \<not> isl (insert_catalog_parts example_db 12 200
      (catalog_parts_default_values\<lparr>new_parts_part_number := Value ''C-3'',
         new_parts_name_en := Value ''Pump'', new_parts_name_ru := Value ''Nasos'',
         new_parts_category := Value ''engine'', new_parts_price := Value 9,
         new_parts_qty := Value (- 5)\<rparr>))
   \<and> \<not> isl (update_catalog_parts example_db (\<lambda>r. parts_id r = Some 10)
      (\<lambda>r. r\<lparr>parts_qty := Some (- 5)\<rparr>))"
proof -
  let ?v = "catalog_parts_default_values\<lparr>new_parts_part_number := Value ''C-3'',
         new_parts_name_en := Value ''Pump'', new_parts_name_ru := Value ''Nasos'',
         new_parts_category := Value ''engine'', new_parts_price := Value 9\<rparr>"
  have h1: "new_parts_qty ?v = Omitted"
    by (simp add: catalog_parts_default_values_def)
  have h2: "- 2147483648 \<le> (- 5 :: int) \<and> (- 5 :: int) \<le> 2147483647"
    by simp
  have z1: "\<not> isl (insert_catalog_parts example_db 12 200 (?v\<lparr>new_parts_qty := Value 0\<rparr>))"
    by (simp add: example_db_def insert_catalog_parts_def catalog_parts_new_def
        catalog_parts_default_values_def catalog_parts_constraints_def integer_in_range_def
        unique_conflict_def)
  have z2: "\<not> isl (update_catalog_parts example_db (\<lambda>r. parts_id r = Some 10)
      (\<lambda>r. r\<lparr>parts_qty := Some 0\<rparr>))"
    by (simp add: example_db_def update_catalog_parts_def catalog_parts_constraints_def
        integer_in_range_def unique_conflict_def referential_def keys_gone_def
        cart_part_id_fkey_on_update_def points_at_def)
  note t = parts_qty_default_no_sign_check
    [where v = ?v and gen = 12 and now = 200 and q = "- 5" and d = example_db
       and wh = "\<lambda>r. parts_id r = Some 10" and st = "\<lambda>r. r"]
  from t have "new_parts_qty ?v = Omitted \<longrightarrow> parts_qty (catalog_parts_new 12 200 ?v) = Some 0"
    by (rule conjunct1)
  from this h1 have a: "parts_qty (catalog_parts_new 12 200 ?v) = Some 0"
    by (rule mp)
  from t have "- 2147483648 \<le> (- 5 :: int) \<and> (- 5 :: int) \<le> 2147483647 \<longrightarrow>
        isl (insert_catalog_parts example_db 12 200 (?v\<lparr>new_parts_qty := Value (- 5)\<rparr>))
          = isl (insert_catalog_parts example_db 12 200 (?v\<lparr>new_parts_qty := Value 0\<rparr>))
      \<and> isl (update_catalog_parts example_db (\<lambda>r. parts_id r = Some 10)
                (\<lambda>r. r\<lparr>parts_qty := Some (- 5)\<rparr>))
          = isl (update_catalog_parts example_db (\<lambda>r. parts_id r = Some 10)
                (\<lambda>r. r\<lparr>parts_qty := Some 0\<rparr>))"
    by (rule conjunct2)
  from this h2 have b:
       "isl (insert_catalog_parts example_db 12 200 (?v\<lparr>new_parts_qty := Value (- 5)\<rparr>))
          = isl (insert_catalog_parts example_db 12 200 (?v\<lparr>new_parts_qty := Value 0\<rparr>))
      \<and> isl (update_catalog_parts example_db (\<lambda>r. parts_id r = Some 10)
                (\<lambda>r. r\<lparr>parts_qty := Some (- 5)\<rparr>))
          = isl (update_catalog_parts example_db (\<lambda>r. parts_id r = Some 10)
                (\<lambda>r. r\<lparr>parts_qty := Some 0\<rparr>))"
    by (rule mp)
  from b z1 have c: "\<not> isl (insert_catalog_parts example_db 12 200
      (?v\<lparr>new_parts_qty := Value (- 5)\<rparr>))"
    by (simp only: simp_thms)
  from b z2 have d: "\<not> isl (update_catalog_parts example_db (\<lambda>r. parts_id r = Some 10)
      (\<lambda>r. r\<lparr>parts_qty := Some (- 5)\<rparr>))"
    by (simp only: simp_thms)
  from a c d show ?thesis by (intro conjI)
qed

text \<open>
  Claim C10. The \<^verbatim>\<open>user_id\<close> and \<^verbatim>\<open>part_id\<close> columns of \<^verbatim>\<open>cart\<close> are nullable,
  and \<^verbatim>\<open>UNIQUE(user_id, part_id)\<close> never rejects a row in which one of them is
  \<^verbatim>\<open>NULL\<close>: an \<^verbatim>\<open>INSERT\<close> of such a row that passes the other checks (range and
  \<^verbatim>\<open>CHECK\<close> of the quantity, the primary key, the foreign keys) succeeds and adds
  the row, whatever rows the table holds already, rows with the same pair included.
\<close>

theorem cart_null_reference_not_unique:
  "cart_user_id (cart_new gen now v) = None \<or> cart_part_id (cart_new gen now v) = None \<Longrightarrow>
   integer_in_range (cart_quantity (cart_new gen now v)) \<Longrightarrow>
   cart_quantity_check (cart_quantity (cart_new gen now v)) \<Longrightarrow>
   cart_id (cart_new gen now v) \<noteq> None \<Longrightarrow>
   \<not> unique_conflict cart_id (cart_new gen now v) (cart d) \<Longrightarrow>
   cart_foreign_keys d (cart_new gen now v) = None \<Longrightarrow>
   insert_cart d gen now v = Inr (d\<lparr>cart := cart d @ [cart_new gen now v]\<rparr>)"
proof -
  assume null: "cart_user_id (cart_new gen now v) = None \<or> cart_part_id (cart_new gen now v) = None"
  assume rest: "integer_in_range (cart_quantity (cart_new gen now v))"
    "cart_quantity_check (cart_quantity (cart_new gen now v))"
    "cart_id (cart_new gen now v) \<noteq> None"
    "\<not> unique_conflict cart_id (cart_new gen now v) (cart d)"
  assume fk: "cart_foreign_keys d (cart_new gen now v) = None"
  from null have "cart_user_id_part_id_key (cart_new gen now v) = None"
    by (auto simp add: cart_user_id_part_id_key_def split: option.splits)
  then have "\<not> unique_conflict cart_user_id_part_id_key (cart_new gen now v) (cart d)"
    by (simp add: unique_conflict_def)
  with rest have "cart_constraints (cart_new gen now v) (cart d) = None"
    by (simp add: cart_constraints_def)
  with fk show ?thesis
    by (simp add: insert_cart_def)
qed

theorem cart_null_reference_not_unique_witness:
  "map_sum id (\<lambda>d'. (length (filter (\<lambda>r. cart_user_id r = None \<and> cart_part_id r = Some 10)
                                (cart d')),
                      map cart_id (cart d')))
     (insert_cart example_db 30 200 (cart_default_values\<lparr>new_cart_part_id := Value 10\<rparr>))
   = Inr (2, [Some 20, Some 21, Some 22, Some 23, Some 30])"
proof -
  let ?v = "cart_default_values\<lparr>new_cart_part_id := Value 10\<rparr>"
  have r: "cart_new 30 200 ?v = \<lparr>cart_id = Some 30, cart_user_id = None, cart_part_id = Some 10,
      cart_quantity = Some 1, cart_created_at = Some 200\<rparr>"
    by (simp add: cart_new_def cart_default_values_def)
  have h1: "cart_user_id (cart_new 30 200 ?v) = None \<or> cart_part_id (cart_new 30 200 ?v) = None"
    by (simp add: r)
  have h2: "integer_in_range (cart_quantity (cart_new 30 200 ?v))"
    by (simp add: r integer_in_range_def)
  have h3: "cart_quantity_check (cart_quantity (cart_new 30 200 ?v))"
    by (simp add: r cart_quantity_check_def)
  have h4: "cart_id (cart_new 30 200 ?v) \<noteq> None"
    by (simp add: r)
  have h5: "\<not> unique_conflict cart_id (cart_new 30 200 ?v) (cart example_db)"
    by (simp add: r unique_conflict_def example_db_def)
  have h6: "cart_foreign_keys example_db (cart_new 30 200 ?v) = None"
    by (simp add: r cart_foreign_keys_def references_def example_db_def)
  from cart_null_reference_not_unique [OF h1 h2 h3 h4 h5 h6]
  have "insert_cart example_db 30 200 ?v
      = Inr (example_db\<lparr>cart := cart example_db @ [cart_new 30 200 ?v]\<rparr>)" .
  then show ?thesis
    by (simp add: r example_db_def)
qed

end
